theory Spec2Isabelle
  imports Complex_Main
begin

section \<open>JavaScript values\<close>

text \<open>
  Payloads travel as JSON-like JavaScript values.  Numbers are modelled as reals (rounding
  and NaN are not modelled; nothing below depends on them), strings as Isabelle strings,
  objects as the list of their own properties.
\<close>

datatype jsval =
    JUndefined
  | JNull
  | JBool bool
  | JNum real
  | JStr string
  | JArr "jsval list"
  | JObj "(string \<times> jsval) list"

datatype error = TypeError | SecurityError | IndexSizeError | InvalidStateError

text \<open>
  Property read \<open>v.k\<close>, for the property names this program reads (\<open>roomId\<close>, \<open>x\<close>,
  \<open>y\<close>, \<open>color\<close>, \<open>size\<close>, \<open>tool\<close>, \<open>text\<close>, \<open>fontSize\<close>): reading from
  \<open>undefined\<close> or \<open>null\<close> throws, an object yields the property or \<open>undefined\<close>, and
  none of these names is a built-in property of a boolean, number, string or array.
\<close>

fun get_prop :: "jsval \<Rightarrow> string \<Rightarrow> error + jsval" where
  "get_prop JUndefined k = Inl TypeError"
| "get_prop JNull k = Inl TypeError"
| "get_prop (JObj kvs) k = Inr (case map_of kvs k of None \<Rightarrow> JUndefined | Some w \<Rightarrow> w)"
| "get_prop v k = Inr JUndefined"

text \<open>JavaScript truthiness, as used by \<open>!v\<close>, \<open>v || d\<close> and \<open>v && w\<close>.\<close>

fun truthy :: "jsval \<Rightarrow> bool" where
  "truthy JUndefined = False"
| "truthy JNull = False"
| "truthy (JBool b) = b"
| "truthy (JNum n) = (n \<noteq> 0)"
| "truthy (JStr s) = (s \<noteq> [])"
| "truthy (JArr vs) = True"
| "truthy (JObj kvs) = True"

text \<open>\<open>v || d\<close>\<close>

definition js_or :: "jsval \<Rightarrow> jsval \<Rightarrow> jsval" where
  "js_or v d = (if truthy v then v else d)"


section \<open>The relay server (server.js)\<close>

subsection \<open>The transport's rooms\<close>

text \<open>
  The server keeps no state of its own: room membership lives in the transport library
  (socket.io 4), which is not part of the repository.  Its adapter is modelled here as far
  as \<open>server.js\<close> uses it: the connected sockets in connection order, and the membership
  pairs (room, socket) in the order they were added.  Every socket joins the room named by
  its own id when it connects and leaves all rooms when it disconnects.
\<close>

type_synonym sid = string

record server =
  sids :: "sid list"
  rooms :: "(jsval \<times> sid) list"

definition init_server :: server where
  "init_server = \<lparr> sids = [], rooms = [] \<rparr>"

text \<open>
  Room keys are compared as keys of a JavaScript \<open>Map\<close>: primitives by value, arrays and
  objects by identity.  A deserialised array or object is always a fresh one, so it never
  names an existing room.
\<close>

fun primitive :: "jsval \<Rightarrow> bool" where
  "primitive (JArr vs) = False"
| "primitive (JObj kvs) = False"
| "primitive v = True"

definition members :: "server \<Rightarrow> jsval \<Rightarrow> sid list" where
  "members srv r = (if primitive r then map snd (filter (\<lambda>p. fst p = r) (rooms srv)) else [])"

text \<open>\<open>join\<close> and \<open>to\<close> accept one room or an array of rooms.\<close>

fun room_list :: "jsval \<Rightarrow> jsval list" where
  "room_list (JArr vs) = vs"
| "room_list v = [v]"

definition add_member :: "sid \<Rightarrow> (jsval \<times> sid) list \<Rightarrow> jsval \<Rightarrow> (jsval \<times> sid) list" where
  "add_member s ms r = (if primitive r \<and> (r, s) \<in> set ms then ms else ms @ [(r, s)])"

definition socket_join :: "sid \<Rightarrow> jsval \<Rightarrow> server \<Rightarrow> server" where
  "socket_join s room srv = srv\<lparr> rooms := foldl (add_member s) (rooms srv) (room_list room) \<rparr>"

text \<open>
  A broadcast to the rooms \<open>rs\<close> except the rooms \<open>ex\<close>: the members of the rooms of
  \<open>rs\<close> that are connected and in no room of \<open>ex\<close>, each once, in the order found; with
  no room given, every connected socket that is in no room of \<open>ex\<close>.
\<close>

definition except_sids :: "server \<Rightarrow> jsval list \<Rightarrow> sid list" where
  "except_sids srv ex = concat (map (members srv) ex)"

definition targets :: "server \<Rightarrow> jsval list \<Rightarrow> jsval list \<Rightarrow> sid list" where
  "targets srv rs ex =
     (if rs \<noteq> [] then
        rev (remdups (rev (filter (\<lambda>t. t \<notin> set (except_sids srv ex) \<and> t \<in> set (sids srv))
                                  (concat (map (members srv) rs)))))
      else filter (\<lambda>t. t \<notin> set (except_sids srv ex)) (sids srv))"

text \<open>\<open>socket.to(room)\<close>: the room (or rooms) given, except the room of the socket's own id.\<close>

definition socket_to :: "sid \<Rightarrow> jsval \<Rightarrow> server \<Rightarrow> sid list" where
  "socket_to s room srv = targets srv (room_list room) [JStr s]"

text \<open>A delivery: the receiving socket, the event name, the arguments of the event.\<close>

type_synonym delivery = "sid \<times> string \<times> jsval list"

definition emit :: "sid list \<Rightarrow> string \<Rightarrow> jsval list \<Rightarrow> delivery list" where
  "emit ts ev args = map (\<lambda>t. (t, ev, args)) ts"

subsection \<open>The handlers of server.js\<close>

text \<open>
  Each handler takes the socket \<open>s\<close> it is registered on and the first argument \<open>data\<close>
  of the received event (\<open>undefined\<close> when the event has none), and returns the new
  transport state with the deliveries it caused, or the exception it threw.
\<close>

definition relay_data :: "string \<Rightarrow> sid \<Rightarrow> jsval \<Rightarrow> server \<Rightarrow> error + (server \<times> delivery list)" where
  "relay_data ev s data srv =
     (case get_prop data ''roomId'' of
        Inl e \<Rightarrow> Inl e
      | Inr room \<Rightarrow> Inr (srv, emit (socket_to s room srv) ev [data]))"

definition on_join_room :: "sid \<Rightarrow> jsval \<Rightarrow> server \<Rightarrow> error + (server \<times> delivery list)" where
  "on_join_room s roomId srv =
     (let srv' = socket_join s roomId srv
      in Inr (srv', emit (socket_to s roomId srv') ''user-joined'' [JObj [(''userId'', JStr s)]]))"

definition on_start_draw :: "sid \<Rightarrow> jsval \<Rightarrow> server \<Rightarrow> error + (server \<times> delivery list)" where
  "on_start_draw = relay_data ''start-draw''"

definition on_drawing :: "sid \<Rightarrow> jsval \<Rightarrow> server \<Rightarrow> error + (server \<times> delivery list)" where
  "on_drawing = relay_data ''drawing''"

definition on_end_draw :: "sid \<Rightarrow> jsval \<Rightarrow> server \<Rightarrow> error + (server \<times> delivery list)" where
  "on_end_draw = relay_data ''end-draw''"

definition on_cursor_move :: "sid \<Rightarrow> jsval \<Rightarrow> server \<Rightarrow> error + (server \<times> delivery list)" where
  "on_cursor_move s data srv =
     (case get_prop data ''roomId'' of
        Inl e \<Rightarrow> Inl e
      | Inr room \<Rightarrow>
          (case (get_prop data ''x'', get_prop data ''y'', get_prop data ''color'') of
             (Inr x, Inr y, Inr c) \<Rightarrow>
               Inr (srv, emit (socket_to s room srv) ''cursor-move''
                      [JObj [(''userId'', JStr s), (''x'', x), (''y'', y), (''color'', c)]])
           | _ \<Rightarrow> Inl TypeError))"

definition on_start_shape :: "sid \<Rightarrow> jsval \<Rightarrow> server \<Rightarrow> error + (server \<times> delivery list)" where
  "on_start_shape = relay_data ''start-shape''"

definition on_drawing_shape :: "sid \<Rightarrow> jsval \<Rightarrow> server \<Rightarrow> error + (server \<times> delivery list)" where
  "on_drawing_shape = relay_data ''drawing-shape''"

definition on_end_shape :: "sid \<Rightarrow> jsval \<Rightarrow> server \<Rightarrow> error + (server \<times> delivery list)" where
  "on_end_shape = relay_data ''end-shape''"

definition on_clear_canvas :: "sid \<Rightarrow> jsval \<Rightarrow> server \<Rightarrow> error + (server \<times> delivery list)" where
  "on_clear_canvas s data srv =
     (case get_prop data ''roomId'' of
        Inl e \<Rightarrow> Inl e
      | Inr room \<Rightarrow> Inr (srv, emit (socket_to s room srv) ''clear-canvas'' []))"

definition on_clear :: "sid \<Rightarrow> jsval \<Rightarrow> server \<Rightarrow> error + (server \<times> delivery list)" where
  "on_clear s roomId srv = Inr (srv, emit (socket_to s roomId srv) ''clear'' [roomId])"

definition on_draw_text :: "sid \<Rightarrow> jsval \<Rightarrow> server \<Rightarrow> error + (server \<times> delivery list)" where
  "on_draw_text = relay_data ''draw-text''"

definition on_undo :: "sid \<Rightarrow> jsval \<Rightarrow> server \<Rightarrow> error + (server \<times> delivery list)" where
  "on_undo s data srv =
     (case get_prop data ''roomId'' of
        Inl e \<Rightarrow> Inl e
      | Inr room \<Rightarrow> Inr (srv, emit (socket_to s room srv) ''undo'' [JObj [(''userId'', JStr s)]]))"

definition on_redo :: "sid \<Rightarrow> jsval \<Rightarrow> server \<Rightarrow> error + (server \<times> delivery list)" where
  "on_redo s data srv =
     (case get_prop data ''roomId'' of
        Inl e \<Rightarrow> Inl e
      | Inr room \<Rightarrow> Inr (srv, emit (socket_to s room srv) ''redo'' [JObj [(''userId'', JStr s)]]))"

text \<open>
  On disconnect the transport first removes the socket and its memberships; the handler
  then tells every socket still connected.
\<close>

definition on_disconnect :: "sid \<Rightarrow> server \<Rightarrow> error + (server \<times> delivery list)" where
  "on_disconnect s srv =
     (let srv' = srv\<lparr> sids := filter (\<lambda>t. t \<noteq> s) (sids srv),
                     rooms := filter (\<lambda>p. snd p \<noteq> s) (rooms srv) \<rparr>
      in Inr (srv', emit (sids srv') ''user-left'' [JObj [(''userId'', JStr s)]]))"

definition on_connection :: "sid \<Rightarrow> server \<Rightarrow> server" where
  "on_connection s srv = srv\<lparr> sids := sids srv @ [s], rooms := rooms srv @ [(JStr s, s)] \<rparr>"

text \<open>The handler registered for an event name; an event without a handler is dropped.\<close>

definition on_event :: "sid \<Rightarrow> string \<Rightarrow> jsval \<Rightarrow> server \<Rightarrow> error + (server \<times> delivery list)" where
  "on_event s ev data srv =
     (if ev = ''join-room'' then on_join_room s data srv
      else if ev = ''start-draw'' then on_start_draw s data srv
      else if ev = ''drawing'' then on_drawing s data srv
      else if ev = ''end-draw'' then on_end_draw s data srv
      else if ev = ''cursor-move'' then on_cursor_move s data srv
      else if ev = ''start-shape'' then on_start_shape s data srv
      else if ev = ''drawing-shape'' then on_drawing_shape s data srv
      else if ev = ''end-shape'' then on_end_shape s data srv
      else if ev = ''clear-canvas'' then on_clear_canvas s data srv
      else if ev = ''clear'' then on_clear s data srv
      else if ev = ''draw-text'' then on_draw_text s data srv
      else if ev = ''undo'' then on_undo s data srv
      else if ev = ''redo'' then on_redo s data srv
      else Inr (srv, []))"

subsection \<open>Runs of the server\<close>

text \<open>
  What happens to the server: a socket connects (with a fresh id), a connected socket
  sends an event, a connected socket disconnects.  An exception thrown by a handler is
  not caught anywhere, so it ends the run.
\<close>

datatype action = Connect sid | Receive sid string jsval | Disconnect sid

fun step :: "action \<Rightarrow> server \<Rightarrow> error + (server \<times> delivery list)" where
  "step (Connect s) srv = Inr (if s \<in> set (sids srv) then srv else on_connection s srv, [])"
| "step (Receive s ev data) srv =
     (if s \<in> set (sids srv) then on_event s ev data srv else Inr (srv, []))"
| "step (Disconnect s) srv =
     (if s \<in> set (sids srv) then on_disconnect s srv else Inr (srv, []))"

fun run :: "action list \<Rightarrow> server \<Rightarrow> error + server" where
  "run [] srv = Inr srv"
| "run (a # as) srv = (case step a srv of Inl e \<Rightarrow> Inl e | Inr (srv', ds) \<Rightarrow> run as srv')"

text \<open>The nine events the protocol relays as drawing operations.\<close>

definition relay_events :: "string list" where
  "relay_events = [''start-draw'', ''drawing'', ''end-draw'', ''start-shape'',
     ''drawing-shape'', ''end-shape'', ''clear'', ''clear-canvas'', ''draw-text'']"

text \<open>Two clients in room demo1.\<close>

definition demo_trace :: "action list" where
  "demo_trace = [Connect ''A'', Connect ''B'',
     Receive ''A'' ''join-room'' (JStr ''demo1''), Receive ''B'' ''join-room'' (JStr ''demo1'')]"

definition demo_server :: server where
  "demo_server = \<lparr> sids = [''A'', ''B''],
     rooms = [(JStr ''A'', ''A''), (JStr ''B'', ''B''), (JStr ''demo1'', ''A''), (JStr ''demo1'', ''B'')] \<rparr>"

definition demo_start :: jsval where
  "demo_start = JObj [(''roomId'', JStr ''demo1''), (''x'', JNum 10), (''y'', JNum 10),
     (''color'', JStr ''#ef4444''), (''size'', JNum 4), (''tool'', JStr ''brush'')]"

definition demo_clear_canvas :: jsval where
  "demo_clear_canvas = JObj [(''roomId'', JStr ''demo1'')]"

text \<open>Every connected socket is a member of the room named by its own id.\<close>

definition own_room_inv :: "server \<Rightarrow> bool" where
  "own_room_inv srv = (\<forall>t \<in> set (sids srv). (JStr t, t) \<in> set (rooms srv))"


section \<open>The client (App.jsx)\<close>

subsection \<open>The canvas\<close>

text \<open>
  The raster surface is modelled by what was painted on it: the list of painting calls made
  since the bitmap was last reset, each with its arguments and the state of the 2D context
  under which it was made.  Two surfaces with the same list show the same pixels.  The
  context state holds the values the context last accepted: an assignment of a value that
  the context does not take leaves the attribute as it was.
\<close>

datatype tool = Brush | Eraser | Text | Line | Rectangle | Circle | Arrow

fun tool_name :: "tool \<Rightarrow> string" where
  "tool_name Brush = ''brush''"
| "tool_name Eraser = ''eraser''"
| "tool_name Text = ''text''"
| "tool_name Line = ''line''"
| "tool_name Rectangle = ''rectangle''"
| "tool_name Circle = ''circle''"
| "tool_name Arrow = ''arrow''"

definition is_shape :: "tool \<Rightarrow> bool" where
  "is_shape t = (t \<in> set [Line, Rectangle, Circle, Arrow])"

text \<open>The coordinates of a point of a path are numbers, kept as values.\<close>

datatype path_cmd =
    MoveTo jsval jsval
  | LineTo jsval jsval
  | Arc real real real real real
  | ClosePath

text \<open>The font string \<open>`${v}px Inter, sans-serif`\<close> is represented by the value \<open>v\<close>.\<close>

datatype font = DefaultFont | PxInter jsval

record ctx2d =
  path :: "path_cmd list"
  strokeStyle :: jsval
  lineWidth :: jsval
  fillStyle :: jsval
  font :: font
  lineCap :: string
  lineJoin :: string
  scale :: real

definition default_ctx :: ctx2d where
  "default_ctx = \<lparr> path = [], strokeStyle = JStr ''#000000'', lineWidth = JNum 1,
     fillStyle = JStr ''#000000'', font = DefaultFont, lineCap = ''butt'', lineJoin = ''miter'',
     scale = 1 \<rparr>"

datatype call =
    Stroke
  | StrokeRect real real real real
  | FillText jsval jsval jsval
  | ClearRect real real real real
  | DrawImage image real real
  | PutImageData image real real
and image = Image int int "(call \<times> ctx2d) list"

type_synonym paint = "call \<times> ctx2d"

record canvas =
  width :: int
  height :: int
  cssWidth :: int
  cssHeight :: int
  ctx :: ctx2d
  bitmap :: "paint list"

text \<open>A canvas element as created: 300 by 150, blank, with the default context state.\<close>

definition new_canvas :: canvas where
  "new_canvas = \<lparr> width = 300, height = 150, cssWidth = 300, cssHeight = 150,
     ctx = default_ctx, bitmap = [] \<rparr>"

text \<open>
  Assigning \<open>canvas.width\<close> or \<open>canvas.height\<close> resets the bitmap to blank and the
  context to its default state.  The value is converted to an integer; it is never
  negative here.
\<close>

definition set_width :: "real \<Rightarrow> canvas \<Rightarrow> canvas" where
  "set_width v c = c\<lparr> width := \<lfloor>v\<rfloor>, ctx := default_ctx, bitmap := [] \<rparr>"

definition set_height :: "real \<Rightarrow> canvas \<Rightarrow> canvas" where
  "set_height v c = c\<lparr> height := \<lfloor>v\<rfloor>, ctx := default_ctx, bitmap := [] \<rparr>"

definition paint_call :: "call \<Rightarrow> canvas \<Rightarrow> canvas" where
  "paint_call k c = c\<lparr> bitmap := bitmap c @ [(k, ctx c)] \<rparr>"

definition beginPath :: "canvas \<Rightarrow> canvas" where
  "beginPath c = c\<lparr> ctx := (ctx c)\<lparr> path := [] \<rparr> \<rparr>"

definition add_path :: "path_cmd \<Rightarrow> canvas \<Rightarrow> canvas" where
  "add_path p c = c\<lparr> ctx := (ctx c)\<lparr> path := path (ctx c) @ [p] \<rparr> \<rparr>"

definition arc :: "real \<Rightarrow> real \<Rightarrow> real \<Rightarrow> real \<Rightarrow> real \<Rightarrow> canvas \<Rightarrow> canvas" where
  "arc x y r a0 a1 = add_path (Arc x y r a0 a1)"

definition closePath :: "canvas \<Rightarrow> canvas" where
  "closePath = add_path ClosePath"

text \<open>
  What a 2D context accepts is decided by the browser, whose parsers are not part of the
  program; they are taken as parameters:
  \<^item> \<open>color_ok v\<close>: the value \<open>v\<close>, converted to a string, parses as a CSS colour;
  \<^item> \<open>number_of v\<close>: the number a string, an array or an object converts to, when it
    converts to a finite one;
  \<^item> \<open>font_ok v\<close>: the string \<open>`${v}px Inter, sans-serif`\<close> parses as a CSS font.
\<close>

record browser =
  color_ok :: "jsval \<Rightarrow> bool"
  number_of :: "jsval \<Rightarrow> real option"
  font_ok :: "jsval \<Rightarrow> bool"

text \<open>
  The conversion of a value to a number, \<open>None\<close> when the result is not a finite
  number: \<open>undefined\<close> gives NaN, \<open>null\<close> gives 0, a boolean 0 or 1.
\<close>

fun to_number :: "browser \<Rightarrow> jsval \<Rightarrow> real option" where
  "to_number B JUndefined = None"
| "to_number B JNull = Some 0"
| "to_number B (JBool b) = Some (if b then 1 else 0)"
| "to_number B (JNum n) = Some n"
| "to_number B v = number_of B v"

text \<open>
  \<open>moveTo\<close>, \<open>lineTo\<close> and \<open>fillText\<close> convert their coordinates to numbers and
  do nothing when one of them is not a finite number.
\<close>

definition point_of :: "browser \<Rightarrow> jsval \<Rightarrow> jsval \<Rightarrow> (real \<times> real) option" where
  "point_of B x y =
     (case to_number B x of
        None \<Rightarrow> None
      | Some a \<Rightarrow> (case to_number B y of None \<Rightarrow> None | Some b \<Rightarrow> Some (a, b)))"

definition moveTo :: "browser \<Rightarrow> jsval \<Rightarrow> jsval \<Rightarrow> canvas \<Rightarrow> canvas" where
  "moveTo B x y c =
     (case point_of B x y of None \<Rightarrow> c | Some (a, b) \<Rightarrow> add_path (MoveTo (JNum a) (JNum b)) c)"

definition lineTo :: "browser \<Rightarrow> jsval \<Rightarrow> jsval \<Rightarrow> canvas \<Rightarrow> canvas" where
  "lineTo B x y c =
     (case point_of B x y of None \<Rightarrow> c | Some (a, b) \<Rightarrow> add_path (LineTo (JNum a) (JNum b)) c)"

definition fillText :: "browser \<Rightarrow> jsval \<Rightarrow> jsval \<Rightarrow> jsval \<Rightarrow> canvas \<Rightarrow> canvas" where
  "fillText B t x y c =
     (case point_of B x y of None \<Rightarrow> c | Some (a, b) \<Rightarrow> paint_call (FillText t (JNum a) (JNum b)) c)"

text \<open>
  The value an attribute holds after an assignment, given the value it held before.  A
  colour that does not parse is ignored; so is a line width that is zero, negative or not
  a finite number; so is a font that does not parse.
\<close>

definition accept_color :: "browser \<Rightarrow> jsval \<Rightarrow> jsval \<Rightarrow> jsval" where
  "accept_color B v old = (if color_ok B v then v else old)"

definition accept_width :: "browser \<Rightarrow> jsval \<Rightarrow> jsval \<Rightarrow> jsval" where
  "accept_width B v old =
     (case to_number B v of
        None \<Rightarrow> old
      | Some n \<Rightarrow> if 0 < n then JNum n else old)"

definition accept_font :: "browser \<Rightarrow> font \<Rightarrow> font \<Rightarrow> font" where
  "accept_font B f old =
     (case f of
        DefaultFont \<Rightarrow> f
      | PxInter v \<Rightarrow> if font_ok B v then f else old)"

definition set_strokeStyle :: "browser \<Rightarrow> jsval \<Rightarrow> canvas \<Rightarrow> canvas" where
  "set_strokeStyle B v c = c\<lparr> ctx := (ctx c)\<lparr> strokeStyle := accept_color B v (strokeStyle (ctx c)) \<rparr> \<rparr>"

definition set_lineWidth :: "browser \<Rightarrow> jsval \<Rightarrow> canvas \<Rightarrow> canvas" where
  "set_lineWidth B v c = c\<lparr> ctx := (ctx c)\<lparr> lineWidth := accept_width B v (lineWidth (ctx c)) \<rparr> \<rparr>"

definition set_fillStyle :: "browser \<Rightarrow> jsval \<Rightarrow> canvas \<Rightarrow> canvas" where
  "set_fillStyle B v c = c\<lparr> ctx := (ctx c)\<lparr> fillStyle := accept_color B v (fillStyle (ctx c)) \<rparr> \<rparr>"

definition set_font :: "browser \<Rightarrow> font \<Rightarrow> canvas \<Rightarrow> canvas" where
  "set_font B f c = c\<lparr> ctx := (ctx c)\<lparr> font := accept_font B f (font (ctx c)) \<rparr> \<rparr>"

text \<open>\<open>lineCap\<close> and \<open>lineJoin\<close> are only ever assigned \<open>"round"\<close>, which both take.\<close>

definition set_lineCap :: "string \<Rightarrow> canvas \<Rightarrow> canvas" where
  "set_lineCap v c = c\<lparr> ctx := (ctx c)\<lparr> lineCap := v \<rparr> \<rparr>"

definition set_lineJoin :: "string \<Rightarrow> canvas \<Rightarrow> canvas" where
  "set_lineJoin v c = c\<lparr> ctx := (ctx c)\<lparr> lineJoin := v \<rparr> \<rparr>"

text \<open>\<open>ctx.scale(f, f)\<close>\<close>

definition ctx_scale :: "real \<Rightarrow> canvas \<Rightarrow> canvas" where
  "ctx_scale f c = c\<lparr> ctx := (ctx c)\<lparr> scale := scale (ctx c) * f \<rparr> \<rparr>"

definition stroke :: "canvas \<Rightarrow> canvas" where
  "stroke = paint_call Stroke"

definition strokeRect :: "real \<Rightarrow> real \<Rightarrow> real \<Rightarrow> real \<Rightarrow> canvas \<Rightarrow> canvas" where
  "strokeRect x y w h = paint_call (StrokeRect x y w h)"

definition clearRect :: "real \<Rightarrow> real \<Rightarrow> real \<Rightarrow> real \<Rightarrow> canvas \<Rightarrow> canvas" where
  "clearRect x y w h = paint_call (ClearRect x y w h)"

definition drawImage :: "image \<Rightarrow> real \<Rightarrow> real \<Rightarrow> canvas \<Rightarrow> canvas" where
  "drawImage img x y = paint_call (DrawImage img x y)"

definition putImageData :: "image \<Rightarrow> real \<Rightarrow> real \<Rightarrow> canvas \<Rightarrow> canvas" where
  "putImageData img x y = paint_call (PutImageData img x y)"

text \<open>
  \<open>canvas.toDataURL\<close> captures the surface.  It raises only on a canvas that holds
  cross-origin content; this program draws nothing but its own canvases and snapshots, so
  the capture always succeeds.
\<close>

definition toDataURL :: "canvas \<Rightarrow> error + image" where
  "toDataURL c = Inr (Image (width c) (height c) (bitmap c))"

text \<open>\<open>getImageData(0, 0, w, h)\<close> raises when \<open>w\<close> or \<open>h\<close> is zero.\<close>

definition getImageData :: "int \<Rightarrow> int \<Rightarrow> canvas \<Rightarrow> error + image" where
  "getImageData w h c = (if w = 0 \<or> h = 0 then Inl IndexSizeError else Inr (Image w h (bitmap c)))"

subsection \<open>What a surface shows\<close>

text \<open>
  The pixels of a surface: a pixel is \<open>None\<close> where the surface is blank (transparent).
  \<open>clearRect\<close> blanks the pixels of its rectangle, taken through the scale of the
  context; what the other calls paint is left to a rasteriser \<open>P\<close>.
\<close>

type_synonym 'px pixels = "int \<times> int \<Rightarrow> 'px option"

definition in_rect :: "real \<Rightarrow> real \<Rightarrow> real \<Rightarrow> real \<Rightarrow> real \<Rightarrow> int \<times> int \<Rightarrow> bool" where
  "in_rect s x y w h p =
     (min (s * x) (s * (x + w)) \<le> real_of_int (fst p) \<and> real_of_int (fst p) < max (s * x) (s * (x + w)) \<and>
      min (s * y) (s * (y + h)) \<le> real_of_int (snd p) \<and> real_of_int (snd p) < max (s * y) (s * (y + h)))"

definition apply_paint :: "(paint \<Rightarrow> 'px pixels \<Rightarrow> 'px pixels) \<Rightarrow> 'px pixels \<Rightarrow> paint \<Rightarrow> 'px pixels" where
  "apply_paint P b e =
     (case fst e of
        ClearRect x y w h \<Rightarrow> (\<lambda>p. if in_rect (scale (snd e)) x y w h p then None else b p)
      | _ \<Rightarrow> P e b)"

definition render :: "(paint \<Rightarrow> 'px pixels \<Rightarrow> 'px pixels) \<Rightarrow> paint list \<Rightarrow> 'px pixels" where
  "render P ops = foldl (apply_paint P) (\<lambda>p. None) ops"

subsection \<open>The state of the component\<close>

text \<open>
  The React state and refs of \<open>App\<close> that the drawing code reads or writes, the
  environment it reads (the browser's parsers, device pixel ratio, size of the canvas's
  parent, position of the canvas), the images \<open>restoreCanvas\<close> has created and whose \<open>onload\<close> has not run yet,
  and the events emitted on the socket so far.  \<open>ctxRef\<close> tells whether
  \<open>ctxRef.current\<close> is set; when it is, it is the context of the mounted canvas.
\<close>

record client =
  roomId :: string
  joined :: bool
  color :: string
  size' :: real
  tool :: tool
  canUndo :: bool
  textInput :: string
  textPosition :: "real \<times> real"
  isPlacingText :: bool
  showTextMarker :: bool
  canvasRef :: "canvas option"
  ctxRef :: bool
  historyRef :: "image list"
  isDrawingRef :: bool
  startPosRef :: "real \<times> real"
  tempCanvasRef :: "canvas option"
  browser :: browser
  devicePixelRatio :: real
  parentSize :: "int \<times> int"
  canvasRect :: "real \<times> real"
  loading :: "image list"
  emitted :: "(string \<times> jsval) list"

text \<open>
  The component as first rendered: the canvas element is rendered only once the room is
  joined, so \<open>canvasRef.current\<close> is still null.
\<close>

definition init_client :: "browser \<Rightarrow> real \<Rightarrow> int \<times> int \<Rightarrow> real \<times> real \<Rightarrow> client" where
  "init_client B ratio parent rect = \<lparr> roomId = [], joined = False, color = ''#1e293b'', size' = 4,
     tool = Brush, canUndo = False, textInput = [], textPosition = (0, 0),
     isPlacingText = False, showTextMarker = False, canvasRef = None, ctxRef = False,
     historyRef = [], isDrawingRef = False, startPosRef = (0, 0), tempCanvasRef = None,
     browser = B, devicePixelRatio = ratio, parentSize = parent, canvasRect = rect, loading = [],
     emitted = [] \<rparr>"

definition socket_emit :: "string \<Rightarrow> jsval \<Rightarrow> client \<Rightarrow> client" where
  "socket_emit ev data st = st\<lparr> emitted := emitted st @ [(ev, data)] \<rparr>"

text \<open>\<open>window.devicePixelRatio || 1\<close>\<close>

definition dpr :: "client \<Rightarrow> real" where
  "dpr st = (if devicePixelRatio st \<noteq> 0 then devicePixelRatio st else 1)"

subsection \<open>Undo history\<close>

definition saveCanvas :: "client \<Rightarrow> client" where
  "saveCanvas st =
     (case canvasRef st of
        None \<Rightarrow> st
      | Some canvas \<Rightarrow>
          (case toDataURL canvas of
             Inl e \<Rightarrow> st
           | Inr dataUrl \<Rightarrow>
               (let h1 = historyRef st @ [dataUrl];
                    h2 = (if length h1 > 30 then tl h1 else h1)
                in st\<lparr> historyRef := h2, canUndo := (length h2 > 1) \<rparr>)))"

text \<open>
  \<open>restoreCanvas\<close> only creates an image and sets its source; the surface changes
  when the image's \<open>onload\<close> runs.
\<close>

definition restoreCanvas :: "image \<Rightarrow> client \<Rightarrow> client" where
  "restoreCanvas dataUrl st =
     (case canvasRef st of
        None \<Rightarrow> st
      | Some canvas \<Rightarrow> if \<not> ctxRef st then st else st\<lparr> loading := loading st @ [dataUrl] \<rparr>)"

definition img_onload :: "nat \<Rightarrow> client \<Rightarrow> client" where
  "img_onload i st =
     (if i < length (loading st) then
        (case canvasRef st of
           None \<Rightarrow> st
         | Some canvas \<Rightarrow>
             (let c1 = clearRect 0 0 (real_of_int (width canvas)) (real_of_int (height canvas)) canvas;
                  c2 = drawImage (loading st ! i) 0 0 c1
              in st\<lparr> canvasRef := Some c2, loading := take i (loading st) @ drop (Suc i) (loading st) \<rparr>))
      else st)"

definition handleUndo :: "client \<Rightarrow> client" where
  "handleUndo st =
     (if length (historyRef st) > 1 then
        (let st1 = st\<lparr> historyRef := butlast (historyRef st) \<rparr>;
             st2 = (case historyRef st1 of [] \<Rightarrow> st1 | _ \<Rightarrow> restoreCanvas (last (historyRef st1)) st1)
         in st2\<lparr> canUndo := (length (historyRef st2) > 1) \<rparr>)
      else st)"

definition resizeCanvas :: "client \<Rightarrow> client" where
  "resizeCanvas st =
     (case canvasRef st of
        None \<Rightarrow> st
      | Some canvas \<Rightarrow>
          (let w = fst (parentSize st);
               h = snd (parentSize st);
               c1 = set_width (real_of_int w * dpr st) canvas;
               c2 = set_height (real_of_int h * dpr st) c1;
               c3 = c2\<lparr> cssWidth := w, cssHeight := h \<rparr>;
               c4 = ctx_scale (dpr st) c3;
               c5 = set_lineCap ''round'' c4;
               c6 = set_lineJoin ''round'' c5;
               c7 = clearRect 0 0 (real_of_int (width c6)) (real_of_int (height c6)) c6
           in saveCanvas (st\<lparr> canvasRef := Some c7, ctxRef := True, historyRef := [] \<rparr>)))"

subsection \<open>Joining\<close>

text \<open>
  \<open>handleJoin\<close>, taken together with what follows it at once: the socket connects and
  \<open>join-room\<close> is emitted, \<open>joined\<close> becomes true, the board with its canvas element is
  rendered, and the effect that registers the drawing handlers stores the canvas's context
  in \<open>ctxRef\<close>.  The \<open>resizeCanvas\<close> scheduled half a second later is a step of its
  own.  The canvas is never unmounted afterwards: nothing sets \<open>joined\<close> back.
\<close>

definition handleJoin :: "client \<Rightarrow> client" where
  "handleJoin st =
     (if roomId st = [] then st
      else (socket_emit ''join-room'' (JStr (roomId st)) st)
             \<lparr> joined := True, canvasRef := Some new_canvas, ctxRef := True \<rparr>)"

subsection \<open>Local drawing\<close>

text \<open>
  The pointer handlers and the remote handlers below are created by the effect that runs
  once the room is joined; they work on the canvas that is mounted then and on its context.
\<close>

record pointer_event =
  button :: int
  clientX :: real
  clientY :: real

text \<open>\<open>drawImage\<close> of a canvas with a zero dimension raises.\<close>

definition temp_canvas :: "canvas \<Rightarrow> error + canvas" where
  "temp_canvas canvas =
     (if width canvas = 0 \<or> height canvas = 0 then Inl InvalidStateError
      else Inr (drawImage (Image (width canvas) (height canvas) (bitmap canvas)) 0 0
                  (new_canvas\<lparr> width := width canvas, height := height canvas \<rparr>)))"

definition handlePointerDown :: "pointer_event \<Rightarrow> client \<Rightarrow> error + client" where
  "handlePointerDown e st =
     (if button e \<noteq> 0 then Inr st
      else
        (let x = clientX e - fst (canvasRect st);
             y = clientY e - snd (canvasRect st)
         in if tool st = Text then
              Inr (st\<lparr> textPosition := (x, y), isPlacingText := True, showTextMarker := True \<rparr>)
            else
              (case canvasRef st of
                 None \<Rightarrow> Inr st
               | Some canvas \<Rightarrow>
                   (let c1 = beginPath canvas;
                        c2 = moveTo (browser st) (JNum x) (JNum y) c1;
                        c3 = set_strokeStyle (browser st) (JStr (if tool st = Eraser then ''#ffffff'' else color st)) c2;
                        c4 = set_lineWidth (browser st) (JNum (if tool st = Eraser then size' st * 3 else size' st)) c3;
                        st1 = st\<lparr> isDrawingRef := True, startPosRef := (x, y), canvasRef := Some c4 \<rparr>;
                        msg = JObj [(''roomId'', JStr (roomId st)), (''x'', JNum x), (''y'', JNum y),
                                (''color'', JStr (if tool st = Eraser then ''#ffffff'' else color st)),
                                (''size'', JNum (if tool st = Eraser then size' st * 3 else size' st)),
                                (''tool'', JStr (tool_name (tool st)))]
                    in if is_shape (tool st) then
                         (case temp_canvas canvas of
                            Inl err \<Rightarrow> Inl err
                          | Inr t \<Rightarrow> Inr (socket_emit ''start-draw'' msg (st1\<lparr> tempCanvasRef := Some t \<rparr>)))
                       else Inr (socket_emit ''start-draw'' msg st1)))))"

text \<open>\<open>Math.atan2\<close>\<close>

definition atan2 :: "real \<Rightarrow> real \<Rightarrow> real" where
  "atan2 y x =
     (if x > 0 then arctan (y / x)
      else if x < 0 \<and> y \<ge> 0 then arctan (y / x) + pi
      else if x < 0 then arctan (y / x) - pi
      else if y > 0 then pi / 2
      else if y < 0 then - pi / 2
      else 0)"

definition drawArrow :: "browser \<Rightarrow> real \<Rightarrow> real \<Rightarrow> real \<Rightarrow> real \<Rightarrow> real \<Rightarrow> canvas \<Rightarrow> canvas" where
  "drawArrow B fromX fromY toX toY lw c =
     (let headLength = lw * 4;
          angle = atan2 (toY - fromY) (toX - fromX);
          c1 = beginPath c;
          c2 = moveTo B (JNum fromX) (JNum fromY) c1;
          c3 = lineTo B (JNum toX) (JNum toY) c2;
          c4 = stroke c3;
          c5 = beginPath c4;
          c6 = moveTo B (JNum toX) (JNum toY) c5;
          c7 = lineTo B (JNum (toX - headLength * cos (angle - pi / 6)))
                      (JNum (toY - headLength * sin (angle - pi / 6))) c6;
          c8 = moveTo B (JNum toX) (JNum toY) c7;
          c9 = lineTo B (JNum (toX - headLength * cos (angle + pi / 6)))
                      (JNum (toY - headLength * sin (angle + pi / 6))) c8
      in stroke c9)"

definition draw_shape :: "browser \<Rightarrow> tool \<Rightarrow> real \<Rightarrow> real \<Rightarrow> real \<Rightarrow> real \<Rightarrow> real \<Rightarrow> canvas \<Rightarrow> canvas" where
  "draw_shape B t startX startY x y sz c =
     (if t = Line then stroke (lineTo B (JNum x) (JNum y) (moveTo B (JNum startX) (JNum startY) (beginPath c)))
      else if t = Rectangle then strokeRect startX startY (x - startX) (y - startY) c
      else if t = Circle then
        (let radius = sqrt ((x - startX)\<^sup>2 + (y - startY)\<^sup>2)
         in stroke (arc startX startY radius 0 (pi * 2) (beginPath c)))
      else if t = Arrow then drawArrow B startX startY x y sz c
      else c)"

definition handlePointerMove :: "pointer_event \<Rightarrow> client \<Rightarrow> error + client" where
  "handlePointerMove e st =
     (if \<not> isDrawingRef st then Inr st
      else
        (case canvasRef st of
           None \<Rightarrow> Inr st
         | Some canvas \<Rightarrow>
             (let x = clientX e - fst (canvasRect st);
                  y = clientY e - snd (canvasRect st);
                  startX = fst (startPosRef st);
                  startY = snd (startPosRef st);
                  msg = JObj [(''roomId'', JStr (roomId st)), (''x'', JNum x), (''y'', JNum y),
                          (''color'', JStr (color st)), (''size'', JNum (size' st)),
                          (''tool'', JStr (tool_name (tool st)))]
              in if is_shape (tool st) then
                   (case (case tempCanvasRef st of
                            None \<Rightarrow> Inr canvas
                          | Some t \<Rightarrow>
                              (case getImageData (width canvas) (height canvas) t of
                                 Inl err \<Rightarrow> Inl err
                               | Inr img \<Rightarrow> Inr (putImageData img 0 0 canvas))) of
                      Inl err \<Rightarrow> Inl err
                    | Inr c1 \<Rightarrow>
                        (let c2 = set_strokeStyle (browser st) (JStr (color st)) c1;
                             c3 = set_lineWidth (browser st) (JNum (size' st)) c2;
                             c4 = draw_shape (browser st) (tool st) startX startY x y (size' st) c3
                         in Inr (socket_emit ''drawing'' msg (st\<lparr> canvasRef := Some c4 \<rparr>))))
                 else
                   (let c1 = lineTo (browser st) (JNum x) (JNum y) canvas;
                        c2 = set_strokeStyle (browser st) (JStr (if tool st = Eraser then ''#ffffff'' else color st)) c1;
                        c3 = set_lineWidth (browser st) (JNum (if tool st = Eraser then size' st * 3 else size' st)) c2;
                        c4 = stroke c3
                    in Inr (socket_emit ''drawing'' msg (st\<lparr> canvasRef := Some c4 \<rparr>))))))"

definition stopDrawing :: "client \<Rightarrow> client" where
  "stopDrawing st =
     (if \<not> isDrawingRef st then st
      else
        (let st1 = st\<lparr> isDrawingRef := False, canvasRef := map_option closePath (canvasRef st) \<rparr>;
             st2 = socket_emit ''end-draw''
                     (JObj [(''roomId'', JStr (roomId st)), (''tool'', JStr (tool_name (tool st)))]) st1
         in saveCanvas st2))"

subsection \<open>Remote operations\<close>

text \<open>
  The guard \<open>!data || data.roomId !== roomId\<close> of the remote handlers, negated.  A truthy
  value is neither \<open>undefined\<close> nor \<open>null\<close>, so reading its properties does not throw.
\<close>

definition same_room :: "jsval \<Rightarrow> client \<Rightarrow> bool" where
  "same_room data st = (truthy data \<and> get_prop data ''roomId'' = Inr (JStr (roomId st)))"

definition field :: "jsval \<Rightarrow> string \<Rightarrow> jsval" where
  "field data k = (case get_prop data k of Inl e \<Rightarrow> JUndefined | Inr v \<Rightarrow> v)"

definition handleRemoteStart :: "jsval \<Rightarrow> client \<Rightarrow> client" where
  "handleRemoteStart data st =
     (if \<not> same_room data st then st
      else
        (let draw = (\<lambda>canvas.
               (let c1 = beginPath canvas;
                    c2 = moveTo (browser st) (field data ''x'') (field data ''y'') c1;
                    c3 = set_strokeStyle (browser st) (js_or (field data ''color'') (JStr ''#000'')) c2
                in set_lineWidth (browser st) (js_or (field data ''size'') (JNum 3)) c3))
         in st\<lparr> canvasRef := map_option draw (canvasRef st) \<rparr>))"

definition handleRemoteDrawing :: "jsval \<Rightarrow> client \<Rightarrow> client" where
  "handleRemoteDrawing data st =
     (if \<not> same_room data st then st
      else
        (let draw = (\<lambda>canvas.
               (let c1 = set_strokeStyle (browser st) (js_or (field data ''color'') (JStr ''#000'')) canvas;
                    c2 = set_lineWidth (browser st) (js_or (field data ''size'') (JNum 3)) c1;
                    c3 = lineTo (browser st) (field data ''x'') (field data ''y'') c2
                in stroke c3))
         in st\<lparr> canvasRef := map_option draw (canvasRef st) \<rparr>))"

definition handleRemoteEnd :: "jsval \<Rightarrow> client \<Rightarrow> client" where
  "handleRemoteEnd data st =
     (if \<not> same_room data st then st
      else st\<lparr> canvasRef := map_option closePath (canvasRef st) \<rparr>)"

definition handleRemoteText :: "jsval \<Rightarrow> client \<Rightarrow> client" where
  "handleRemoteText data st =
     (if \<not> same_room data st then st
      else
        (let draw = (\<lambda>canvas.
               (let c1 = set_font (browser st) (PxInter (field data ''fontSize'')) canvas;
                    c2 = set_fillStyle (browser st) (field data ''color'') c1
                in fillText (browser st) (field data ''text'') (field data ''x'') (field data ''y'') c2))
         in st\<lparr> canvasRef := map_option draw (canvasRef st) \<rparr>))"

subsection \<open>Clearing\<close>

text \<open>\<open>if (ctx) ctx.clearRect(0, 0, canvas.width, canvas.height)\<close> with \<open>ctx = ctxRef.current\<close>.\<close>

definition clear_surface :: "client \<Rightarrow> client" where
  "clear_surface st =
     (if ctxRef st then
        st\<lparr> canvasRef := map_option
              (\<lambda>canvas. clearRect 0 0 (real_of_int (width canvas)) (real_of_int (height canvas)) canvas)
              (canvasRef st) \<rparr>
      else st)"

definition clearBoard :: "client \<Rightarrow> client" where
  "clearBoard st =
     (let st1 = saveCanvas st;
          st2 = clear_surface st1;
          st3 = st2\<lparr> showTextMarker := False, isPlacingText := False, textInput := [] \<rparr>;
          st4 = socket_emit ''clear'' (JStr (roomId st)) st3
      in saveCanvas st4)"

definition onClear :: "jsval \<Rightarrow> client \<Rightarrow> client" where
  "onClear room st =
     (if room \<noteq> JStr (roomId st) then st
      else saveCanvas (clear_surface st))"

subsection \<open>The text tool\<close>

text \<open>\<open>String.prototype.trim\<close>: white space and line terminators, as far as characters go here.\<close>

definition js_space :: "char \<Rightarrow> bool" where
  "js_space c = (of_char c \<in> set [9, 10, 11, 12, 13, 32, 160 :: nat])"

definition trim :: "string \<Rightarrow> string" where
  "trim s = rev (dropWhile js_space (rev (dropWhile js_space s)))"

text \<open>The \<open>onKeyDown\<close> of the text tool's input, with the key pressed.\<close>

definition text_onKeyDown :: "string \<Rightarrow> client \<Rightarrow> client" where
  "text_onKeyDown key st =
     (if key = ''Enter'' \<and> trim (textInput st) \<noteq> [] \<and> fst (textPosition st) \<noteq> 0
         \<and> snd (textPosition st) \<noteq> 0 then
        (case canvasRef st of
           None \<Rightarrow> st
         | Some canvas \<Rightarrow>
             if \<not> ctxRef st then st
             else
               (let x = fst (textPosition st) * dpr st;
                    y = snd (textPosition st) * dpr st;
                    c1 = set_font (browser st) (PxInter (JNum (size' st * 4))) canvas;
                    c2 = set_fillStyle (browser st) (JStr (color st)) c1;
                    c3 = fillText (browser st) (JStr (textInput st)) (JNum x) (JNum y) c2;
                    st1 = saveCanvas (st\<lparr> canvasRef := Some c3 \<rparr>);
                    st2 = socket_emit ''draw-text''
                            (JObj [(''roomId'', JStr (roomId st)), (''text'', JStr (textInput st)),
                                   (''x'', JNum x), (''y'', JNum y), (''color'', JStr (color st)),
                                   (''fontSize'', JNum (size' st * 4))]) st1
                in st2\<lparr> textInput := [], isPlacingText := False \<rparr>))
      else st)"

subsection \<open>Tool settings\<close>

text \<open>\<open>setTool\<close>, with the effect that discards a pending text placement when the tool changes.\<close>

definition setTool :: "tool \<Rightarrow> client \<Rightarrow> client" where
  "setTool t st =
     (let st1 = st\<lparr> tool := t \<rparr>
      in if t \<noteq> Text \<and> showTextMarker st1 then
           st1\<lparr> showTextMarker := False, isPlacingText := False, textInput := [] \<rparr>
         else st1)"

subsection \<open>Events of the component\<close>

text \<open>
  What can happen to the component, and the handler that runs.  The pointer handlers, the
  remote stroke and text handlers, the undo shortcut and the toolbar exist only once the room
  is joined; the room id can be typed and the room joined only before; the listeners for
  window resizes and for \<open>clear\<close> are registered from the start.
\<close>

datatype event =
    SetRoomId string
  | Join
  | Resize
  | PointerDown pointer_event
  | PointerMove pointer_event
  | PointerStop
  | RemoteStart jsval
  | RemoteDrawing jsval
  | RemoteEnd jsval
  | RemoteText jsval
  | RemoteClear jsval
  | Undo
  | ClearBoard
  | SetTool tool
  | SetColor string
  | SetSize real
  | SetTextInput string
  | TextKeyDown string
  | ImageLoaded nat

fun dispatch :: "event \<Rightarrow> client \<Rightarrow> error + client" where
  "dispatch (SetRoomId r) st = Inr (if joined st then st else st\<lparr> roomId := r \<rparr>)"
| "dispatch Join st = Inr (if joined st then st else handleJoin st)"
| "dispatch Resize st = Inr (resizeCanvas st)"
| "dispatch (PointerDown e) st = (if joined st then handlePointerDown e st else Inr st)"
| "dispatch (PointerMove e) st = (if joined st then handlePointerMove e st else Inr st)"
| "dispatch PointerStop st = Inr (if joined st then stopDrawing st else st)"
| "dispatch (RemoteStart d) st = Inr (if joined st then handleRemoteStart d st else st)"
| "dispatch (RemoteDrawing d) st = Inr (if joined st then handleRemoteDrawing d st else st)"
| "dispatch (RemoteEnd d) st = Inr (if joined st then handleRemoteEnd d st else st)"
| "dispatch (RemoteText d) st = Inr (if joined st then handleRemoteText d st else st)"
| "dispatch (RemoteClear r) st = Inr (onClear r st)"
| "dispatch Undo st = Inr (if joined st then handleUndo st else st)"
| "dispatch ClearBoard st = Inr (if joined st then clearBoard st else st)"
| "dispatch (SetTool t) st = Inr (if joined st then setTool t st else st)"
| "dispatch (SetColor c) st = Inr (if joined st then st\<lparr> color := c \<rparr> else st)"
| "dispatch (SetSize n) st = Inr (if joined st then st\<lparr> size' := n \<rparr> else st)"
| "dispatch (SetTextInput t) st =
     Inr (if joined st \<and> tool st = Text \<and> isPlacingText st then st\<lparr> textInput := t \<rparr> else st)"
| "dispatch (TextKeyDown k) st =
     Inr (if joined st \<and> tool st = Text \<and> isPlacingText st then text_onKeyDown k st else st)"
| "dispatch (ImageLoaded i) st = Inr (img_onload i st)"

subsection \<open>Notions used in the statements\<close>

text \<open>The snapshot \<open>saveCanvas\<close> takes of a surface.\<close>

definition snap :: "canvas \<Rightarrow> image" where
  "snap c = Image (width c) (height c) (bitmap c)"

text \<open>A sequence of pushes: \<open>saveCanvas\<close> is called with the surface showing each of \<open>cs\<close> in turn.\<close>

fun save_all :: "canvas list \<Rightarrow> client \<Rightarrow> client" where
  "save_all [] st = st"
| "save_all (c # cs) st = save_all cs (saveCanvas (st\<lparr> canvasRef := Some c \<rparr>))"

text \<open>What the mounted surface shows, under a rasteriser \<open>P\<close>.\<close>

definition surface :: "(paint \<Rightarrow> 'px pixels \<Rightarrow> 'px pixels) \<Rightarrow> client \<Rightarrow> 'px pixels option" where
  "surface P st = map_option (\<lambda>c. render P (bitmap c)) (canvasRef st)"

text \<open>The paint last put on the mounted surface.\<close>

definition last_paint :: "client \<Rightarrow> paint option" where
  "last_paint st =
     (case canvasRef st of
        None \<Rightarrow> None
      | Some c \<Rightarrow> if bitmap c = [] then None else Some (last (bitmap c)))"

text \<open>Events one after the other; an exception ends the run.\<close>

fun run_events :: "event list \<Rightarrow> client \<Rightarrow> error + client" where
  "run_events [] st = Inr st"
| "run_events (e # es) st = (case dispatch e st of Inl err \<Rightarrow> Inl err | Inr st' \<Rightarrow> run_events es st')"

text \<open>The paint last put on the surface by a run, and the length of the history after it.\<close>

definition final_paint :: "error + client \<Rightarrow> paint option" where
  "final_paint r = (case r of Inl err \<Rightarrow> None | Inr st \<Rightarrow> last_paint st)"

definition final_history_length :: "error + client \<Rightarrow> nat option" where
  "final_history_length r = (case r of Inl err \<Rightarrow> None | Inr st \<Rightarrow> Some (length (historyRef st)))"

text \<open>
  The browser of the examples, described as far as they need it: of colours it takes the
  hexadecimal ones, \<open>#\<close> followed by 3, 4, 6 or 8 hexadecimal digits, and font sizes
  that are numbers not below zero.  What else a browser takes plays no part in the examples.
\<close>

definition hex_digit :: "char \<Rightarrow> bool" where
  "hex_digit ch = (ch \<in> set ''0123456789abcdefABCDEF'')"

fun hex_color :: "string \<Rightarrow> bool" where
  "hex_color [] = False"
| "hex_color (ch # cs) = (ch = CHR ''#'' \<and> length cs \<in> set [3, 4, 6, 8] \<and> list_all hex_digit cs)"

fun demo_color_ok :: "jsval \<Rightarrow> bool" where
  "demo_color_ok (JStr s) = hex_color s"
| "demo_color_ok v = False"

fun demo_font_ok :: "jsval \<Rightarrow> bool" where
  "demo_font_ok (JNum n) = (0 \<le> n)"
| "demo_font_ok v = False"

fun demo_number_of :: "jsval \<Rightarrow> real option" where
  "demo_number_of v = None"

definition demo_browser :: browser where
  "demo_browser = \<lparr> color_ok = demo_color_ok, number_of = demo_number_of, font_ok = demo_font_ok \<rparr>"

text \<open>
  A client on a display with pixel ratio 1 whose canvas area is 800 by 600: as first
  rendered, and after it has joined room demo1 and the canvas has been set up.
\<close>

definition fresh_client :: client where
  "fresh_client = init_client demo_browser 1 (800, 600) (0, 0)"

definition demo_client :: client where
  "demo_client = resizeCanvas (handleJoin (fresh_client\<lparr> roomId := ''demo1'' \<rparr>))"

text \<open>Thirty-one surfaces that differ, and a client whose history is full.\<close>

definition cs31 :: "canvas list" where
  "cs31 = map (\<lambda>i. new_canvas\<lparr> width := int i \<rparr>) [0..<31]"

definition full_client :: client where
  "full_client = fresh_client\<lparr> historyRef := replicate 30 (snap new_canvas) \<rparr>"

text \<open>The surface of \<open>demo_client\<close>: 800 by 600, cleared once.\<close>

definition blank_800 :: canvas where
  "blank_800 = \<lparr> width = 800, height = 600, cssWidth = 800, cssHeight = 600,
     ctx = \<lparr> path = [], strokeStyle = JStr ''#000000'', lineWidth = JNum 1,
       fillStyle = JStr ''#000000'', font = DefaultFont, lineCap = ''round'', lineJoin = ''round'',
       scale = 1 \<rparr>,
     bitmap = [(ClearRect 0 0 800 600,
       \<lparr> path = [], strokeStyle = JStr ''#000000'', lineWidth = JNum 1,
         fillStyle = JStr ''#000000'', font = DefaultFont, lineCap = ''round'', lineJoin = ''round'',
         scale = 1 \<rparr>)] \<rparr>"

text \<open>A message for another room than demo1.\<close>

definition other_room_draw :: jsval where
  "other_room_draw = JObj [(''roomId'', JStr ''other''), (''x'', JNum 50), (''y'', JNum 50),
     (''color'', JStr ''#ef4444''), (''size'', JNum 4), (''tool'', JStr ''brush''),
     (''text'', JStr ''hello''), (''fontSize'', JNum 16)]"

text \<open>The call \<open>ctx.clearRect(0, 0, canvas.width, canvas.height)\<close>.\<close>

definition wipe :: "canvas \<Rightarrow> canvas" where
  "wipe c = clearRect 0 0 (real_of_int (width c)) (real_of_int (height c)) c"

text \<open>
  The eraser at work: the pointer goes down at (10, 10) with the eraser selected on
  \<open>demo_client\<close> (colour #1e293b and size 4 selected), then moves to (50, 50).
\<close>

definition pointer_at :: "real \<Rightarrow> real \<Rightarrow> pointer_event" where
  "pointer_at x y = \<lparr> button = 0, clientX = x, clientY = y \<rparr>"

definition eraser_down :: client where
  "eraser_down = demo_client\<lparr> tool := Eraser,
     canvasRef := Some (blank_800\<lparr> ctx := (ctx blank_800)\<lparr> path := [MoveTo (JNum 10) (JNum 10)],
        strokeStyle := JStr ''#ffffff'', lineWidth := JNum 12 \<rparr> \<rparr>),
     isDrawingRef := True, startPosRef := (10, 10),
     emitted := [(''join-room'', JStr ''demo1''),
       (''start-draw'', JObj [(''roomId'', JStr ''demo1''), (''x'', JNum 10), (''y'', JNum 10),
          (''color'', JStr ''#ffffff''), (''size'', JNum 12), (''tool'', JStr ''eraser'')])] \<rparr>"

definition eraser_stroke :: ctx2d where
  "eraser_stroke = \<lparr> path = [MoveTo (JNum 10) (JNum 10), LineTo (JNum 50) (JNum 50)],
     strokeStyle = JStr ''#ffffff'', lineWidth = JNum 12, fillStyle = JStr ''#000000'',
     font = DefaultFont, lineCap = ''round'', lineJoin = ''round'', scale = 1 \<rparr>"

definition eraser_moved :: client where
  "eraser_moved = eraser_down\<lparr>
     canvasRef := Some (blank_800\<lparr> ctx := eraser_stroke,
        bitmap := bitmap blank_800 @ [(Stroke, eraser_stroke)] \<rparr>),
     emitted := emitted eraser_down @
       [(''drawing'', JObj [(''roomId'', JStr ''demo1''), (''x'', JNum 50), (''y'', JNum 50),
          (''color'', JStr ''#1e293b''), (''size'', JNum 4), (''tool'', JStr ''eraser'')])] \<rparr>"

text \<open>
  Remote messages for room demo1: the second point of a stroke, the same with size 0, and
  a text placement.
\<close>

definition demo_drawing :: jsval where
  "demo_drawing = JObj [(''roomId'', JStr ''demo1''), (''x'', JNum 50), (''y'', JNum 50),
     (''color'', JStr ''#ef4444''), (''size'', JNum 4), (''tool'', JStr ''brush'')]"

definition demo_thin :: jsval where
  "demo_thin = JObj [(''roomId'', JStr ''demo1''), (''x'', JNum 50), (''y'', JNum 50),
     (''color'', JStr ''#ef4444''), (''size'', JNum 0), (''tool'', JStr ''brush'')]"

definition demo_text :: jsval where
  "demo_text = JObj [(''roomId'', JStr ''demo1''), (''text'', JStr ''hello''), (''x'', JNum 100),
     (''y'', JNum 50), (''color'', JStr ''#3b82f6''), (''fontSize'', JNum 24)]"

definition thin_stroke :: ctx2d where
  "thin_stroke = \<lparr> path = [LineTo (JNum 50) (JNum 50)],
     strokeStyle = JStr ''#ef4444'', lineWidth = JNum 3, fillStyle = JStr ''#000000'',
     font = DefaultFont, lineCap = ''round'', lineJoin = ''round'', scale = 1 \<rparr>"

text \<open>A text typed for a placement at (100, 50), and for one at the left edge.\<close>

definition placed_text :: client where
  "placed_text = demo_client\<lparr> tool := Text, textInput := ''hi'', textPosition := (100, 50),
     isPlacingText := True, showTextMarker := True \<rparr>"

definition placed_at_edge :: client where
  "placed_at_edge = demo_client\<lparr> tool := Text, textInput := ''hi'', textPosition := (0, 50),
     isPlacingText := True, showTextMarker := True \<rparr>"

text \<open>
  The receiver in the middle of a stroke of its own: on \<open>demo_client\<close> the pointer has
  gone down at (200, 200) with the brush, colour #1e293b and size 4 selected.  A remote
  stroke point whose colour does not parse and whose size is negative, and the context
  state under which it is stroked.
\<close>

definition own_down :: client where
  "own_down = demo_client\<lparr>
     canvasRef := Some (blank_800\<lparr> ctx := (ctx blank_800)\<lparr> path := [MoveTo (JNum 200) (JNum 200)],
        strokeStyle := JStr ''#1e293b'', lineWidth := JNum 4 \<rparr> \<rparr>),
     isDrawingRef := True, startPosRef := (200, 200),
     emitted := [(''join-room'', JStr ''demo1''),
       (''start-draw'', JObj [(''roomId'', JStr ''demo1''), (''x'', JNum 200), (''y'', JNum 200),
          (''color'', JStr ''#1e293b''), (''size'', JNum 4), (''tool'', JStr ''brush'')])] \<rparr>"

definition demo_invalid :: jsval where
  "demo_invalid = JObj [(''roomId'', JStr ''demo1''), (''x'', JNum 50), (''y'', JNum 50),
     (''color'', JStr ''no-such-colour''), (''size'', JNum (- 1)), (''tool'', JStr ''brush'')]"

definition own_stroke :: ctx2d where
  "own_stroke = \<lparr> path = [MoveTo (JNum 200) (JNum 200), LineTo (JNum 50) (JNum 50)],
     strokeStyle = JStr ''#1e293b'', lineWidth = JNum 4, fillStyle = JStr ''#000000'',
     font = DefaultFont, lineCap = ''round'', lineJoin = ''round'', scale = 1 \<rparr>"

text \<open>The surface of \<open>demo_client\<close> after a remote stroke has started at (10, 10).\<close>

definition started_800 :: canvas where
  "started_800 = blank_800\<lparr> ctx := (ctx blank_800)\<lparr> path := [MoveTo (JNum 10) (JNum 10)],
      strokeStyle := JStr ''#ef4444'', lineWidth := JNum 4 \<rparr> \<rparr>"

text \<open>
  A stroke from (10, 10) to (50, 50) drawn on \<open>demo_client\<close>: the events, the context
  state under which it is stroked, the surface and the client afterwards.  Then a second
  stroke, an undo, a window resize, and the load of the image the undo asked for.
\<close>

definition first_stroke :: ctx2d where
  "first_stroke = \<lparr> path = [MoveTo (JNum 10) (JNum 10), LineTo (JNum 50) (JNum 50)],
     strokeStyle = JStr ''#1e293b'', lineWidth = JNum 4, fillStyle = JStr ''#000000'',
     font = DefaultFont, lineCap = ''round'', lineJoin = ''round'', scale = 1 \<rparr>"

definition drawn_800 :: canvas where
  "drawn_800 = blank_800\<lparr>
     ctx := first_stroke\<lparr> path := [MoveTo (JNum 10) (JNum 10), LineTo (JNum 50) (JNum 50), ClosePath] \<rparr>,
     bitmap := bitmap blank_800 @ [(Stroke, first_stroke)] \<rparr>"

definition one_stroke :: "event list" where
  "one_stroke = [PointerDown (pointer_at 10 10), PointerMove (pointer_at 50 50), PointerStop]"

definition drawn_client :: client where
  "drawn_client = demo_client\<lparr> canUndo := True, canvasRef := Some drawn_800,
     historyRef := [snap blank_800, snap drawn_800], startPosRef := (10, 10),
     emitted := [(''join-room'', JStr ''demo1''),
       (''start-draw'', JObj [(''roomId'', JStr ''demo1''), (''x'', JNum 10), (''y'', JNum 10),
          (''color'', JStr ''#1e293b''), (''size'', JNum 4), (''tool'', JStr ''brush'')]),
       (''drawing'', JObj [(''roomId'', JStr ''demo1''), (''x'', JNum 50), (''y'', JNum 50),
          (''color'', JStr ''#1e293b''), (''size'', JNum 4), (''tool'', JStr ''brush'')]),
       (''end-draw'', JObj [(''roomId'', JStr ''demo1''), (''tool'', JStr ''brush'')])] \<rparr>"

definition undo_resize_load :: "event list" where
  "undo_resize_load = one_stroke @ [PointerDown (pointer_at 60 60), PointerMove (pointer_at 90 90),
     PointerStop, Undo, Resize, ImageLoaded 0]"


section \<open>Properties of the relay\<close>

subsection \<open>The sender is not a recipient\<close>

lemma own_room_inv_init: "own_room_inv init_server"
  by (simp add: own_room_inv_def init_server_def)

lemma set_foldl_add_member:
  "set ms \<subseteq> set (foldl (add_member s) ms rs)"
  by (induction rs arbitrary: ms) (force simp: add_member_def)+

lemma own_room_inv_join:
  assumes "own_room_inv srv"
  shows "own_room_inv (socket_join s room srv)"
  using assms set_foldl_add_member [of "rooms srv" s "room_list room"]
  by (auto simp: own_room_inv_def socket_join_def)

lemma relay_data_state: "relay_data ev s data srv = Inr (srv', ds) \<Longrightarrow> srv' = srv"
  by (auto simp: relay_data_def split: sum.splits)

lemma on_event_inv:
  assumes "own_room_inv srv" and "on_event s ev data srv = Inr (srv', ds)"
  shows "own_room_inv srv'"
proof (cases "ev = ''join-room''")
  case True
  with assms show ?thesis
    by (auto simp: on_event_def on_join_room_def Let_def own_room_inv_join)
next
  case False
  with assms(2) have "srv' = srv"
    by (auto simp: on_event_def on_start_draw_def on_drawing_def on_end_draw_def
        on_cursor_move_def on_start_shape_def on_drawing_shape_def on_end_shape_def
        on_clear_canvas_def on_clear_def on_draw_text_def on_undo_def on_redo_def
        dest: relay_data_state split: if_splits sum.splits)
  with assms(1) show ?thesis by simp
qed

lemma on_disconnect_inv:
  assumes "own_room_inv srv" and "on_disconnect s srv = Inr (srv', ds)"
  shows "own_room_inv srv'"
  using assms by (auto simp: own_room_inv_def on_disconnect_def Let_def)

lemma on_connection_inv:
  assumes "own_room_inv srv"
  shows "own_room_inv (on_connection s srv)"
  using assms by (auto simp: own_room_inv_def on_connection_def)

lemma step_inv:
  assumes "own_room_inv srv" and "step a srv = Inr (srv', ds)"
  shows "own_room_inv srv'"
  using assms
  by (cases a) (auto simp: on_connection_inv split: if_splits dest: on_event_inv on_disconnect_inv)

lemma run_inv:
  "own_room_inv srv \<Longrightarrow> run tr srv = Inr srv' \<Longrightarrow> own_room_inv srv'"
proof (induction tr arbitrary: srv)
  case Nil
  then show ?case by simp
next
  case (Cons a tr)
  then show ?case
    by (auto split: sum.splits dest: step_inv)
qed

lemma sender_not_target:
  assumes "own_room_inv srv"
  shows "s \<notin> set (socket_to s room srv)"
proof (cases "s \<in> set (sids srv)")
  case True
  with assms have "(JStr s, s) \<in> set (rooms srv)"
    by (simp add: own_room_inv_def)
  then have "s \<in> set (except_sids srv [JStr s])"
    by (force simp: except_sids_def members_def)
  then show ?thesis
    by (simp add: socket_to_def targets_def)
next
  case False
  then show ?thesis
    by (simp add: socket_to_def targets_def)
qed

lemma emit_recipients: "fst ` set (emit ts ev args) = set ts"
  by (force simp: emit_def)

lemma relay_data_excludes:
  "own_room_inv srv \<Longrightarrow> relay_data ev s data srv = Inr (srv', ds) \<Longrightarrow> s \<notin> fst ` set ds"
proof -
  assume inv: "own_room_inv srv" and r: "relay_data ev s data srv = Inr (srv', ds)"
  from r obtain room where "ds = emit (socket_to s room srv) ev [data]"
    by (auto simp: relay_data_def split: sum.splits)
  then have "fst ` set ds = set (socket_to s room srv)"
    by (simp only: emit_recipients)
  with sender_not_target [OF inv] show ?thesis by simp
qed

lemma clear_excludes:
  "own_room_inv srv \<Longrightarrow> on_clear s data srv = Inr (srv', ds) \<Longrightarrow> s \<notin> fst ` set ds"
proof -
  assume inv: "own_room_inv srv" and r: "on_clear s data srv = Inr (srv', ds)"
  from r have "ds = emit (socket_to s data srv) ''clear'' [data]"
    by (auto simp: on_clear_def)
  then have "fst ` set ds = set (socket_to s data srv)"
    by (simp only: emit_recipients)
  with sender_not_target [OF inv] show ?thesis by simp
qed

lemma clear_canvas_excludes:
  "own_room_inv srv \<Longrightarrow> on_clear_canvas s data srv = Inr (srv', ds) \<Longrightarrow> s \<notin> fst ` set ds"
proof -
  assume inv: "own_room_inv srv" and r: "on_clear_canvas s data srv = Inr (srv', ds)"
  from r obtain room where "ds = emit (socket_to s room srv) ''clear-canvas'' []"
    by (auto simp: on_clear_canvas_def split: sum.splits)
  then have "fst ` set ds = set (socket_to s room srv)"
    by (simp only: emit_recipients)
  with sender_not_target [OF inv] show ?thesis by simp
qed

lemma relay_event_cases:
  assumes "ev \<in> set relay_events"
  shows "ev \<noteq> ''clear-canvas'' \<and> on_event s ev data srv = relay_data ev s data srv
       \<or> ev = ''clear'' \<and> on_event s ev data srv = on_clear s data srv
       \<or> ev = ''clear-canvas'' \<and> on_event s ev data srv = on_clear_canvas s data srv"
proof -
  from assms have "ev = ''start-draw'' \<or> ev = ''drawing'' \<or> ev = ''end-draw'' \<or> ev = ''start-shape''
      \<or> ev = ''drawing-shape'' \<or> ev = ''end-shape'' \<or> ev = ''clear'' \<or> ev = ''clear-canvas''
      \<or> ev = ''draw-text''"
    by (simp add: relay_events_def)
  then show ?thesis
    by (elim disjE)
       (simp_all add: on_event_def on_start_draw_def on_drawing_def on_end_draw_def
          on_start_shape_def on_drawing_shape_def on_end_shape_def on_draw_text_def)
qed

lemma demo_run: "run demo_trace init_server = Inr demo_server"
  by (simp add: demo_trace_def init_server_def demo_server_def on_connection_def on_event_def
      on_join_room_def socket_join_def add_member_def Let_def)

lemma demo_relay: "on_event ''A'' ''start-draw'' demo_start demo_server = Inr (demo_server, [(''B'', ''start-draw'', [demo_start])])"
  by (simp add: on_event_def on_start_draw_def relay_data_def demo_start_def socket_to_def targets_def
       except_sids_def members_def demo_server_def emit_def)


text \<open>
  Claim C1.  In every state the server reaches, whichever socket sends one of the nine
  relayed drawing events (start-draw, drawing, end-draw, start-shape, drawing-shape,
  end-shape, clear, clear-canvas, draw-text) with whatever payload, the sending socket is
  not among the recipients of the deliveries the handler makes.
\<close>

theorem relay_excludes_sender:
  assumes "run tr init_server = Inr srv"
    and "ev \<in> set relay_events"
    and "on_event s ev data srv = Inr (srv', ds)"
  shows "s \<notin> fst ` set ds"
proof -
  have inv: "own_room_inv srv"
    using run_inv [OF own_room_inv_init assms(1)] .
  from relay_event_cases [OF assms(2), of s data srv] assms(3)
  consider "relay_data ev s data srv = Inr (srv', ds)"
    | "on_clear s data srv = Inr (srv', ds)"
    | "on_clear_canvas s data srv = Inr (srv', ds)"
    by metis
  then show ?thesis
  proof cases
    case 1
    then show ?thesis by (rule relay_data_excludes [OF inv])
  next
    case 2
    then show ?thesis by (rule clear_excludes [OF inv])
  next
    case 3
    then show ?thesis by (rule clear_canvas_excludes [OF inv])
  qed
qed

theorem relay_excludes_sender_witness:
  "run demo_trace init_server = Inr demo_server
   \<and> ''start-draw'' \<in> set relay_events
   \<and> on_event ''A'' ''start-draw'' demo_start demo_server = Inr (demo_server, [(''B'', ''start-draw'', [demo_start])])
   \<and> ''A'' \<notin> fst ` set [(''B'', ''start-draw'', [demo_start])]"
proof -
  have ev: "''start-draw'' \<in> set relay_events" by (simp add: relay_events_def)
  show ?thesis
    using relay_excludes_sender [OF demo_run ev demo_relay] demo_run ev demo_relay by simp
qed



subsection \<open>What is delivered\<close>

lemma emit_payload: "d \<in> set (emit ts ev args) \<Longrightarrow> fst (snd d) = ev \<and> snd (snd d) = args"
  by (auto simp: emit_def)

lemma relay_data_payload:
  assumes "relay_data ev s data srv = Inr (srv', ds)" and "d \<in> set ds"
  shows "fst (snd d) = ev \<and> snd (snd d) = [data]"
proof -
  from assms(1) obtain room where "ds = emit (socket_to s room srv) ev [data]"
    by (auto simp: relay_data_def split: sum.splits)
  with assms(2) show ?thesis by (simp only: emit_payload)
qed

lemma clear_payload:
  assumes "on_clear s data srv = Inr (srv', ds)" and "d \<in> set ds"
  shows "fst (snd d) = ''clear'' \<and> snd (snd d) = [data]"
proof -
  from assms(1) have "ds = emit (socket_to s data srv) ''clear'' [data]"
    by (auto simp: on_clear_def)
  with assms(2) show ?thesis by (simp only: emit_payload)
qed

lemma clear_canvas_payload:
  assumes "on_clear_canvas s data srv = Inr (srv', ds)" and "d \<in> set ds"
  shows "fst (snd d) = ''clear-canvas'' \<and> snd (snd d) = []"
proof -
  from assms(1) obtain room where "ds = emit (socket_to s room srv) ''clear-canvas'' []"
    by (auto simp: on_clear_canvas_def split: sum.splits)
  with assms(2) show ?thesis by (simp only: emit_payload)
qed

lemma demo_clear_canvas_relay:
  "on_event ''A'' ''clear-canvas'' demo_clear_canvas demo_server
     = Inr (demo_server, [(''B'', ''clear-canvas'', [])])"
  by (simp add: on_event_def on_clear_canvas_def demo_clear_canvas_def socket_to_def targets_def
       except_sids_def members_def demo_server_def emit_def)

text \<open>
  Claim C2, as stated, fails for \<open>clear-canvas\<close>: with A and B in room demo1, A sends
  \<open>clear-canvas\<close> with the object holding the room id, and B is delivered the event with
  no argument at all.
\<close>

theorem clear_canvas_drops_payload:
  "run demo_trace init_server = Inr demo_server
   \<and> on_event ''A'' ''clear-canvas'' demo_clear_canvas demo_server
       = Inr (demo_server, [(''B'', ''clear-canvas'', [])])
   \<and> snd (snd (''B'', ''clear-canvas'', [])) \<noteq> [demo_clear_canvas]"
  using demo_run demo_clear_canvas_relay by simp

text \<open>
  Claim C2, amended.  Every delivery made for one of the nine relayed events carries the
  name of the event received; for start-draw, drawing, end-draw, start-shape, drawing-shape,
  end-shape, clear and draw-text its only argument is the payload received, unchanged; for
  clear-canvas it has no argument (the payload received serves for routing only).
\<close>

theorem relay_payload_verbatim:
  assumes "ev \<in> set relay_events"
    and "on_event s ev data srv = Inr (srv', ds)"
    and "d \<in> set ds"
  shows "fst (snd d) = ev \<and> snd (snd d) = (if ev = ''clear-canvas'' then [] else [data])"
proof -
  from relay_event_cases [OF assms(1), of s data srv] assms(2)
  consider "ev \<noteq> ''clear-canvas''" "relay_data ev s data srv = Inr (srv', ds)"
    | "ev = ''clear''" "on_clear s data srv = Inr (srv', ds)"
    | "ev = ''clear-canvas''" "on_clear_canvas s data srv = Inr (srv', ds)"
    by metis
  then show ?thesis
  proof cases
    case 1
    then show ?thesis using relay_data_payload [OF _ assms(3)] by simp
  next
    case 2
    then show ?thesis using clear_payload [OF _ assms(3)] by simp
  next
    case 3
    then show ?thesis using clear_canvas_payload [OF _ assms(3)] by simp
  qed
qed

theorem relay_payload_verbatim_witness:
  "''start-draw'' \<in> set relay_events
   \<and> on_event ''A'' ''start-draw'' demo_start demo_server
       = Inr (demo_server, [(''B'', ''start-draw'', [demo_start])])
   \<and> (''B'', ''start-draw'', [demo_start]) \<in> set [(''B'', ''start-draw'', [demo_start])]
   \<and> snd (snd (''B'', ''start-draw'', [demo_start])) = [demo_start]"
proof -
  have ev: "''start-draw'' \<in> set relay_events" by (simp add: relay_events_def)
  have d: "(''B'', ''start-draw'', [demo_start]) \<in> set [(''B'', ''start-draw'', [demo_start])]"
    by simp
  show ?thesis
    using relay_payload_verbatim [OF ev demo_relay d] ev demo_relay by simp
qed


section \<open>Properties of the undo history\<close>

subsection \<open>Pushing and undoing\<close>

lemma saveCanvas_mounted:
  "canvasRef st = Some c \<Longrightarrow>
   saveCanvas st = st\<lparr> historyRef := (if length (historyRef st) \<ge> 30 then tl (historyRef st @ [snap c])
                                          else historyRef st @ [snap c]),
                       canUndo := (length (if length (historyRef st) \<ge> 30 then tl (historyRef st @ [snap c])
                                          else historyRef st @ [snap c]) > 1) \<rparr>"
  by (simp add: saveCanvas_def toDataURL_def snap_def Let_def)

lemma saveCanvas_unmounted: "canvasRef st = None \<Longrightarrow> saveCanvas st = st"
  by (simp add: saveCanvas_def)

lemma saveCanvas_canvasRef: "canvasRef (saveCanvas st) = canvasRef st"
  by (cases "canvasRef st") (simp_all add: saveCanvas_mounted saveCanvas_unmounted)

lemma saveCanvas_ctxRef: "ctxRef (saveCanvas st) = ctxRef st"
  by (cases "canvasRef st") (simp_all add: saveCanvas_mounted saveCanvas_unmounted)

lemma saveCanvas_loading: "loading (saveCanvas st) = loading st"
  by (cases "canvasRef st") (simp_all add: saveCanvas_mounted saveCanvas_unmounted)

lemma saveCanvas_history_le:
  "length (historyRef st) \<le> 30 \<Longrightarrow> length (historyRef (saveCanvas st)) \<le> 30"
  by (cases "canvasRef st") (auto simp: saveCanvas_mounted saveCanvas_unmounted)

lemma saveCanvas_history_ne:
  "historyRef st \<noteq> [] \<Longrightarrow> historyRef (saveCanvas st) \<noteq> []"
  by (cases "canvasRef st") (auto simp: saveCanvas_mounted saveCanvas_unmounted)

lemma save_all_loading: "loading (save_all cs st) = loading st"
  by (induction cs arbitrary: st) (simp_all add: saveCanvas_loading)

lemma save_all_history:
  "length (historyRef st) \<le> 30 \<Longrightarrow>
   historyRef (save_all cs st) =
     drop (length (historyRef st) + length cs - 30) (historyRef st @ map snap cs)"
proof (induction cs arbitrary: st)
  case Nil
  then show ?case by simp
next
  case (Cons c cs)
  let ?st1 = "saveCanvas (st\<lparr> canvasRef := Some c \<rparr>)"
  show ?case
  proof (cases "length (historyRef st) = 30")
    case True
    then have ne: "historyRef st \<noteq> []" by auto
    have h1: "historyRef ?st1 = tl (historyRef st) @ [snap c]"
      using True ne by (simp add: saveCanvas_mounted)
    then have len: "length (historyRef ?st1) = 30"
      using True by simp
    have "historyRef (save_all (c # cs) st) = drop (length cs) (tl (historyRef st) @ snap c # map snap cs)"
      using Cons.IH [of ?st1] len h1 by simp
    also have "\<dots> = drop (Suc (length cs)) (historyRef st @ snap c # map snap cs)"
      by (cases "historyRef st") (use ne in simp_all)
    finally show ?thesis using True by simp
  next
    case False
    with Cons.prems have lt: "length (historyRef st) < 30" by simp
    then have h1: "historyRef ?st1 = historyRef st @ [snap c]"
      by (simp add: saveCanvas_mounted)
    then have len: "length (historyRef ?st1) \<le> 30"
      using lt by simp
    show ?thesis
      using Cons.IH [OF len] h1 by simp
  qed
qed

lemma restoreCanvas_history: "historyRef (restoreCanvas d st) = historyRef st"
  by (simp add: restoreCanvas_def split: option.splits)

lemma restoreCanvas_loading: "set (loading (restoreCanvas d st)) \<subseteq> insert d (set (loading st))"
  by (auto simp: restoreCanvas_def split: option.splits)

lemma handleUndo_history:
  "historyRef (handleUndo st) = (if length (historyRef st) > 1 then butlast (historyRef st) else historyRef st)"
  by (simp add: handleUndo_def Let_def restoreCanvas_history split: list.splits)

lemma handleUndo_loading:
  "set (loading (handleUndo st)) \<subseteq> set (loading st) \<union> set (historyRef st)"
proof (cases "length (historyRef st) > 1")
  case True
  then have ne: "butlast (historyRef st) \<noteq> []"
    by (cases "historyRef st" rule: rev_cases) auto
  then have "last (butlast (historyRef st)) \<in> set (historyRef st)"
    by (meson in_set_butlastD last_in_set)
  moreover have "set (loading (handleUndo st))
      \<subseteq> insert (last (butlast (historyRef st))) (set (loading st))"
    using True ne restoreCanvas_loading [of "last (butlast (historyRef st))" "st\<lparr>historyRef := butlast (historyRef st)\<rparr>"]
    by (auto simp: handleUndo_def Let_def split: list.splits)
  ultimately show ?thesis by auto
next
  case False
  then show ?thesis by (simp add: handleUndo_def)
qed

lemma undos_history: "\<exists>n. historyRef ((handleUndo ^^ k) st) = take n (historyRef st)"
proof (induction k)
  case 0
  have "historyRef st = take (length (historyRef st)) (historyRef st)" by simp
  then show ?case by (metis funpow_0)
next
  case (Suc k)
  let ?s = "(handleUndo ^^ k) st"
  from Suc obtain n where n: "historyRef ?s = take n (historyRef st)" ..
  have step: "historyRef ((handleUndo ^^ Suc k) st)
      = (if length (historyRef ?s) > 1 then butlast (historyRef ?s) else historyRef ?s)"
    by (simp add: handleUndo_history)
  show ?case
  proof (cases "length (historyRef ?s) > 1")
    case True
    with step have "historyRef ((handleUndo ^^ Suc k) st) = butlast (historyRef ?s)"
      by simp
    also have "\<dots> = take (length (historyRef ?s) - 1) (historyRef ?s)"
      by (rule butlast_conv_take)
    also have "\<dots> = take (length (historyRef ?s) - 1) (take n (historyRef st))"
      by (simp only: n)
    also have "\<dots> = take (min (length (historyRef ?s) - 1) n) (historyRef st)"
      by (simp only: take_take)
    finally show ?thesis by blast
  next
    case False
    with step have "historyRef ((handleUndo ^^ Suc k) st) = historyRef ?s"
      by simp
    also note n
    finally show ?thesis by blast
  qed
qed

lemma undos_loading:
  "set (loading ((handleUndo ^^ k) st)) \<subseteq> set (loading st) \<union> set (historyRef st)"
proof (induction k)
  case 0
  then show ?case by simp
next
  case (Suc k)
  obtain n where n: "historyRef ((handleUndo ^^ k) st) = take n (historyRef st)"
    using undos_history by blast
  have "set (loading ((handleUndo ^^ Suc k) st))
      \<subseteq> set (loading ((handleUndo ^^ k) st)) \<union> set (historyRef ((handleUndo ^^ k) st))"
    using handleUndo_loading [of "(handleUndo ^^ k) st"] by simp
  also have "\<dots> \<subseteq> set (loading st) \<union> set (historyRef st)"
    using Suc.IH n set_take_subset [of n "historyRef st"] by auto
  finally show ?case .
qed

subsection \<open>What the handlers do to the history\<close>

lemma handlePointerDown_history:
  "handlePointerDown e st = Inr st' \<Longrightarrow> historyRef st' = historyRef st"
  by (auto simp: handlePointerDown_def Let_def socket_emit_def split: if_splits option.splits sum.splits)

lemma handlePointerMove_history:
  "handlePointerMove e st = Inr st' \<Longrightarrow> historyRef st' = historyRef st"
  by (auto simp: handlePointerMove_def Let_def socket_emit_def split: if_splits option.splits sum.splits)

lemma stopDrawing_history_ne:
  "historyRef st \<noteq> [] \<Longrightarrow> historyRef (stopDrawing st) \<noteq> []"
  by (simp add: stopDrawing_def Let_def socket_emit_def saveCanvas_history_ne)

lemma remote_history:
  "historyRef (handleRemoteStart d st) = historyRef st"
  "historyRef (handleRemoteDrawing d st) = historyRef st"
  "historyRef (handleRemoteEnd d st) = historyRef st"
  "historyRef (handleRemoteText d st) = historyRef st"
  by (simp_all add: handleRemoteStart_def handleRemoteDrawing_def handleRemoteEnd_def
      handleRemoteText_def Let_def)

lemma clear_surface_history: "historyRef (clear_surface st) = historyRef st"
  by (simp add: clear_surface_def)

lemma onClear_history_ne:
  "historyRef st \<noteq> [] \<Longrightarrow> historyRef (onClear r st) \<noteq> []"
  by (simp add: onClear_def saveCanvas_history_ne clear_surface_history)

lemma clearBoard_history_ne:
  "historyRef st \<noteq> [] \<Longrightarrow> historyRef (clearBoard st) \<noteq> []"
  by (simp add: clearBoard_def Let_def socket_emit_def saveCanvas_history_ne clear_surface_history)

lemma handleUndo_history_ne:
  "historyRef st \<noteq> [] \<Longrightarrow> historyRef (handleUndo st) \<noteq> []"
proof (cases "historyRef st" rule: rev_cases)
  case Nil
  then show "historyRef st \<noteq> [] \<Longrightarrow> ?thesis" by simp
next
  case (snoc h x)
  then show ?thesis by (auto simp: handleUndo_history)
qed

lemma resizeCanvas_mounted:
  "canvasRef st = Some c \<Longrightarrow> length (historyRef (resizeCanvas st)) = 1"
  by (simp add: resizeCanvas_def Let_def saveCanvas_mounted)

lemma resizeCanvas_history_ne:
  "historyRef st \<noteq> [] \<Longrightarrow> historyRef (resizeCanvas st) \<noteq> []"
proof (cases "canvasRef st")
  case None
  then show "historyRef st \<noteq> [] \<Longrightarrow> ?thesis" by (simp add: resizeCanvas_def)
next
  case (Some c)
  from resizeCanvas_mounted [OF this] show ?thesis by auto
qed

lemma text_onKeyDown_history_ne:
  "historyRef st \<noteq> [] \<Longrightarrow> historyRef (text_onKeyDown k st) \<noteq> []"
  by (auto simp: text_onKeyDown_def Let_def socket_emit_def saveCanvas_history_ne split: option.splits)

lemma img_onload_history: "historyRef (img_onload i st) = historyRef st"
  by (simp add: img_onload_def Let_def split: option.splits)

lemma handleJoin_history: "historyRef (handleJoin st) = historyRef st"
  by (simp add: handleJoin_def socket_emit_def)

lemma setTool_history: "historyRef (setTool t st) = historyRef st"
  by (simp add: setTool_def Let_def)

lemma dispatch_history_ne:
  assumes "historyRef st \<noteq> []" and "dispatch ev st = Inr st'"
  shows "historyRef st' \<noteq> []"
proof (cases ev)
  case (PointerDown e)
  with assms show ?thesis by (auto simp: handlePointerDown_history split: if_splits)
next
  case (PointerMove e)
  with assms show ?thesis by (auto simp: handlePointerMove_history split: if_splits)
qed (use assms in \<open>auto simp: resizeCanvas_history_ne stopDrawing_history_ne remote_history
      onClear_history_ne handleUndo_history_ne clearBoard_history_ne setTool_history
      text_onKeyDown_history_ne img_onload_history handleJoin_history split: if_splits\<close>)

lemma stopDrawing_history_le:
  "length (historyRef st) \<le> 30 \<Longrightarrow> length (historyRef (stopDrawing st)) \<le> 30"
  by (simp add: stopDrawing_def Let_def socket_emit_def saveCanvas_history_le)

lemma onClear_history_le:
  "length (historyRef st) \<le> 30 \<Longrightarrow> length (historyRef (onClear r st)) \<le> 30"
  by (simp add: onClear_def saveCanvas_history_le clear_surface_history)

lemma clearBoard_history_le:
  "length (historyRef st) \<le> 30 \<Longrightarrow> length (historyRef (clearBoard st)) \<le> 30"
  by (simp add: clearBoard_def Let_def socket_emit_def saveCanvas_history_le clear_surface_history)

lemma handleUndo_history_le:
  "length (historyRef st) \<le> 30 \<Longrightarrow> length (historyRef (handleUndo st)) \<le> 30"
  by (auto simp: handleUndo_history)

lemma resizeCanvas_history_le:
  "length (historyRef st) \<le> 30 \<Longrightarrow> length (historyRef (resizeCanvas st)) \<le> 30"
proof (cases "canvasRef st")
  case None
  then show "length (historyRef st) \<le> 30 \<Longrightarrow> ?thesis" by (simp add: resizeCanvas_def)
next
  case (Some c)
  from resizeCanvas_mounted [OF this] show ?thesis by simp
qed

lemma text_onKeyDown_history_le:
  "length (historyRef st) \<le> 30 \<Longrightarrow> length (historyRef (text_onKeyDown k st)) \<le> 30"
  by (auto simp: text_onKeyDown_def Let_def socket_emit_def saveCanvas_history_le split: option.splits)

lemma dispatch_history_le:
  assumes "length (historyRef st) \<le> 30" and "dispatch ev st = Inr st'"
  shows "length (historyRef st') \<le> 30"
proof (cases ev)
  case (PointerDown e)
  with assms show ?thesis by (auto simp: handlePointerDown_history split: if_splits)
next
  case (PointerMove e)
  with assms show ?thesis by (auto simp: handlePointerMove_history split: if_splits)
qed (use assms in \<open>auto simp: resizeCanvas_history_le stopDrawing_history_le remote_history
      onClear_history_le handleUndo_history_le clearBoard_history_le setTool_history
      text_onKeyDown_history_le img_onload_history handleJoin_history split: if_splits\<close>)

subsection \<open>At most thirty snapshots\<close>

text \<open>
  Claim C3.  Starting from a history of at most 30 snapshots, after any sequence of pushes
  the history holds at most 30 snapshots, and so it does after whatever else happens to the
  component; a push onto 30 snapshots drops the oldest and
  appends the new one; and after 31 pushes the history is exactly the snapshots of pushes
  2 to 31, so that whatever number of undos follows, the history stays an initial part of
  these and every snapshot handed to \<open>restoreCanvas\<close> is one of them: the first
  snapshot pushed is out of reach.
\<close>

theorem snapshot_history_bounded:
  assumes "length (historyRef st) \<le> 30"
  shows "length (historyRef (save_all cs st)) \<le> 30
    \<and> (dispatch ev st = Inr st' \<longrightarrow> length (historyRef st') \<le> 30)
    \<and> (length (historyRef st) = 30 \<longrightarrow>
         historyRef (saveCanvas (st\<lparr> canvasRef := Some c \<rparr>)) = tl (historyRef st) @ [snap c])
    \<and> (length cs = 31 \<longrightarrow>
         historyRef (save_all cs st) = map snap (tl cs)
         \<and> (\<exists>n. historyRef ((handleUndo ^^ k) (save_all cs st)) = take n (map snap (tl cs)))
         \<and> set (loading ((handleUndo ^^ k) (save_all cs st)))
             \<subseteq> set (loading st) \<union> set (map snap (tl cs)))"
proof (intro conjI impI)
  show "length (historyRef (save_all cs st)) \<le> 30"
    using assms by (simp add: save_all_history)
next
  assume "dispatch ev st = Inr st'"
  with assms show "length (historyRef st') \<le> 30" by (rule dispatch_history_le)
next
  assume "length (historyRef st) = 30"
  then show "historyRef (saveCanvas (st\<lparr> canvasRef := Some c \<rparr>)) = tl (historyRef st) @ [snap c]"
    by (cases "historyRef st") (simp_all add: saveCanvas_mounted)
next
  assume len: "length cs = 31"
  have "historyRef (save_all cs st)
      = drop (length (historyRef st) + length cs - 30) (historyRef st @ map snap cs)"
    by (rule save_all_history [OF assms])
  also have "\<dots> = drop 1 (map snap cs)"
    using len by simp
  also have "\<dots> = map snap (tl cs)"
    by (simp add: drop_Suc map_tl)
  finally show h: "historyRef (save_all cs st) = map snap (tl cs)" .
  show "\<exists>n. historyRef ((handleUndo ^^ k) (save_all cs st)) = take n (map snap (tl cs))"
    using undos_history [of k "save_all cs st"] h by simp
  show "set (loading ((handleUndo ^^ k) (save_all cs st))) \<subseteq> set (loading st) \<union> set (map snap (tl cs))"
    using undos_loading [of k "save_all cs st"] h by (simp add: save_all_loading)
qed

theorem snapshot_history_bounded_witness:
  "length (historyRef fresh_client) \<le> 30
   \<and> length cs31 = 31
   \<and> length (historyRef (save_all cs31 fresh_client)) \<le> 30
   \<and> dispatch ClearBoard full_client = Inr full_client
   \<and> length (historyRef full_client) \<le> 30
   \<and> historyRef (save_all cs31 fresh_client) = map snap (tl cs31)
   \<and> set (loading ((handleUndo ^^ 5) (save_all cs31 fresh_client))) \<subseteq> set (map snap (tl cs31))
   \<and> length (historyRef full_client) = 30
   \<and> historyRef (saveCanvas (full_client\<lparr> canvasRef := Some new_canvas \<rparr>))
       = tl (historyRef full_client) @ [snap new_canvas]"
proof -
  have a: "length (historyRef fresh_client) \<le> 30"
    by (simp add: fresh_client_def init_client_def)
  have b: "length cs31 = 31"
    by (simp add: cs31_def)
  have c: "length (historyRef full_client) = 30"
    by (simp add: full_client_def)
  have d: "loading fresh_client = []"
    by (simp add: fresh_client_def init_client_def)
  have e: "dispatch ClearBoard full_client = Inr full_client"
    by (simp add: full_client_def fresh_client_def init_client_def)
  show ?thesis
    using snapshot_history_bounded [OF a, of cs31 Undo fresh_client new_canvas 5]
      snapshot_history_bounded [of full_client "[]" ClearBoard full_client new_canvas 0] a b c d e
    by simp
qed


subsection \<open>At least one snapshot once the canvas is set up\<close>

lemma demo_browser_colors:
  "color_ok demo_browser (JStr ''#ffffff'')"
  "color_ok demo_browser (JStr ''#1e293b'')"
  "color_ok demo_browser (JStr ''#ef4444'')"
  "color_ok demo_browser (JStr ''#3b82f6'')"
  "color_ok demo_browser (JStr ''#000'')"
  by (simp_all add: demo_browser_def hex_digit_def)

lemma accept_color_ok: "color_ok B v \<Longrightarrow> accept_color B v old = v"
  by (simp add: accept_color_def)

lemma accept_width_positive: "0 < n \<Longrightarrow> accept_width B (JNum n) old = JNum n"
  by (simp add: accept_width_def)

lemma accept_font_ok: "font_ok B v \<Longrightarrow> accept_font B (PxInter v) old = PxInter v"
  by (simp add: accept_font_def)

lemma demo_client_eval:
  "demo_client = \<lparr> roomId = ''demo1'', joined = True, color = ''#1e293b'', size' = 4,
     tool = Brush, canUndo = False, textInput = [], textPosition = (0, 0),
     isPlacingText = False, showTextMarker = False, canvasRef = Some blank_800, ctxRef = True,
     historyRef = [snap blank_800], isDrawingRef = False, startPosRef = (0, 0),
     tempCanvasRef = None, browser = demo_browser, devicePixelRatio = 1, parentSize = (800, 600),
     canvasRect = (0, 0), loading = [], emitted = [(''join-room'', JStr ''demo1'')] \<rparr>"
  by (simp add: demo_client_def fresh_client_def init_client_def handleJoin_def socket_emit_def
     resizeCanvas_def new_canvas_def Let_def dpr_def set_width_def set_height_def ctx_scale_def
     set_lineCap_def set_lineJoin_def clearRect_def paint_call_def saveCanvas_def toDataURL_def
     default_ctx_def blank_800_def snap_def)

text \<open>The definitions to unfold when a run of handlers is evaluated.\<close>

lemmas handler_defs = handlePointerDown_def handlePointerMove_def stopDrawing_def handleUndo_def
  resizeCanvas_def img_onload_def restoreCanvas_def saveCanvas_def toDataURL_def
  pointer_at_def Let_def is_shape_def beginPath_def moveTo_def lineTo_def closePath_def add_path_def
  set_strokeStyle_def set_lineWidth_def stroke_def paint_call_def clearRect_def drawImage_def
  socket_emit_def dpr_def set_width_def set_height_def ctx_scale_def set_lineCap_def set_lineJoin_def
  demo_browser_colors accept_color_ok accept_width_positive default_ctx_def point_of_def

lemma handleUndo_single: "length (historyRef st) = 1 \<Longrightarrow> handleUndo st = st"
  by (simp add: handleUndo_def)

text \<open>
  Claim C4.  Setting up the canvas (\<open>resizeCanvas\<close> with the canvas mounted) leaves at
  least one snapshot in the history; whatever happens to the component afterwards, a
  history that holds a snapshot still holds one; and undo with exactly one snapshot leaves
  the whole state, history and surface included, as it was.
\<close>

theorem history_never_empty:
  "(canvasRef st \<noteq> None \<longrightarrow> 1 \<le> length (historyRef (resizeCanvas st)))
   \<and> (1 \<le> length (historyRef st) \<and> dispatch ev st = Inr st' \<longrightarrow> 1 \<le> length (historyRef st'))
   \<and> (length (historyRef st) = 1 \<longrightarrow> handleUndo st = st)"
proof (intro conjI impI)
  assume "canvasRef st \<noteq> None"
  then obtain c where "canvasRef st = Some c" by auto
  from resizeCanvas_mounted [OF this] show "1 \<le> length (historyRef (resizeCanvas st))" by simp
next
  assume "1 \<le> length (historyRef st) \<and> dispatch ev st = Inr st'"
  then have "historyRef st \<noteq> []" and "dispatch ev st = Inr st'" by auto
  from dispatch_history_ne [OF this] show "1 \<le> length (historyRef st')"
    by (cases "historyRef st'") simp_all
next
  assume "length (historyRef st) = 1"
  then show "handleUndo st = st" by (rule handleUndo_single)
qed

theorem history_never_empty_witness:
  "canvasRef demo_client \<noteq> None
   \<and> 1 \<le> length (historyRef (resizeCanvas demo_client))
   \<and> length (historyRef demo_client) = 1
   \<and> dispatch Undo demo_client = Inr demo_client
   \<and> handleUndo demo_client = demo_client"
proof -
  have a: "canvasRef demo_client \<noteq> None" by (simp add: demo_client_eval)
  have b: "length (historyRef demo_client) = 1" by (simp add: demo_client_eval)
  have c: "joined demo_client" by (simp add: demo_client_eval)
  show ?thesis
    using history_never_empty [of demo_client Undo demo_client] a b c by simp
qed


section \<open>Properties of the remote operation handlers\<close>

text \<open>
  Claim C7.  A start-draw, drawing, end-draw or draw-text message whose \<open>roomId\<close> is not
  the room of the receiver, and a clear message for another room, leave the whole state of
  the receiver unchanged, its surface and its history included.
\<close>

theorem foreign_room_ignored:
  "(get_prop data ''roomId'' \<noteq> Inr (JStr (roomId st)) \<longrightarrow>
      handleRemoteStart data st = st \<and> handleRemoteDrawing data st = st
      \<and> handleRemoteEnd data st = st \<and> handleRemoteText data st = st)
   \<and> (room \<noteq> JStr (roomId st) \<longrightarrow> onClear room st = st)"
  by (simp add: handleRemoteStart_def handleRemoteDrawing_def handleRemoteEnd_def
      handleRemoteText_def onClear_def same_room_def)

theorem foreign_room_ignored_witness:
  "get_prop other_room_draw ''roomId'' \<noteq> Inr (JStr (roomId demo_client))
   \<and> JStr ''other'' \<noteq> JStr (roomId demo_client)
   \<and> handleRemoteStart other_room_draw demo_client = demo_client
   \<and> handleRemoteDrawing other_room_draw demo_client = demo_client
   \<and> handleRemoteEnd other_room_draw demo_client = demo_client
   \<and> handleRemoteText other_room_draw demo_client = demo_client
   \<and> onClear (JStr ''other'') demo_client = demo_client"
proof -
  have a: "get_prop other_room_draw ''roomId'' \<noteq> Inr (JStr (roomId demo_client))"
    by (simp add: other_room_draw_def demo_client_eval)
  have b: "JStr ''other'' \<noteq> JStr (roomId demo_client)"
    by (simp add: demo_client_eval)
  show ?thesis
    using foreign_room_ignored [of other_room_draw demo_client "JStr ''other''"] a b by simp
qed


lemma own_down_eval: "handlePointerDown (pointer_at 200 200) demo_client = Inr own_down"
  by (simp add: demo_client_eval own_down_def handler_defs blank_800_def)

lemma demo_invalid_rejected:
  "\<not> color_ok demo_browser (JStr ''no-such-colour'')"
  by (simp add: demo_browser_def)

text \<open>
  Claim C6, as stated, fails in two ways.  A \<open>drawing\<close> message with size 0 is stroked at
  width 3, not at the size it carries.  And a \<open>drawing\<close> message whose colour does not
  parse and whose size is negative, arriving while the receiver is in a stroke of its own,
  is stroked in the receiver's selected colour at the receiver's selected size: the context
  ignores both assignments and keeps what the receiver's pointer-down has set.
\<close>

theorem remote_falsy_or_rejected_parameters:
  "get_prop demo_thin ''size'' = Inr (JNum 0)
   \<and> last_paint (handleRemoteDrawing demo_thin demo_client) = Some (Stroke, thin_stroke)
   \<and> lineWidth thin_stroke = JNum 3
   \<and> handlePointerDown (pointer_at 200 200) demo_client = Inr own_down
   \<and> get_prop demo_invalid ''size'' = Inr (JNum (- 1))
   \<and> last_paint (handleRemoteDrawing demo_invalid own_down) = Some (Stroke, own_stroke)
   \<and> strokeStyle own_stroke = JStr (color own_down)
   \<and> lineWidth own_stroke = JNum (size' own_down)"
proof (intro conjI)
  show "handlePointerDown (pointer_at 200 200) demo_client = Inr own_down"
    by (rule own_down_eval)
  show "last_paint (handleRemoteDrawing demo_thin demo_client) = Some (Stroke, thin_stroke)"
    by (simp add: demo_thin_def handleRemoteDrawing_def same_room_def demo_client_eval field_def
        js_or_def last_paint_def handler_defs blank_800_def thin_stroke_def)
  show "last_paint (handleRemoteDrawing demo_invalid own_down) = Some (Stroke, own_stroke)"
    by (simp add: demo_invalid_def handleRemoteDrawing_def same_room_def demo_client_eval field_def
        js_or_def last_paint_def own_down_def handler_defs blank_800_def own_stroke_def
        accept_color_def accept_width_def demo_invalid_rejected)
qed (simp_all add: demo_thin_def demo_invalid_def thin_stroke_def own_stroke_def own_down_def
       demo_client_eval)

text \<open>
  Claim C6, amended.  For every remote stroke start, stroke point and text for the receiver's
  room, in whatever state the receiver is: the start begins a path at the carried point and
  a stroke point extends the path by the carried point and strokes it (a point whose
  coordinates are not finite numbers adds nothing to the path); both assign as colour the
  carried colour, or \<open>#000\<close> if that is falsy, and as width the carried size, or 3 if
  that is falsy; a text is filled with the carried text at the carried position after the
  carried font size and colour have been assigned (nothing is filled when the position is
  not a pair of finite numbers).  An assigned value is in force when the context accepts it
  (a colour or font that parses, a width that is a positive number); when the context
  rejects it, the value the context held before stays in force.  None of the three handlers
  reads the receiver's selected colour, size or tool: changing them before the handler runs
  or after it gives the same state.
\<close>

theorem remote_uses_message_parameters:
  "(same_room d st \<and> canvasRef st = Some c \<longrightarrow>
      (\<exists>c'. canvasRef (handleRemoteStart d st) = Some c' \<and> bitmap c' = bitmap c
         \<and> path (ctx c')
             = (case point_of (browser st) (field d ''x'') (field d ''y'') of
                  None \<Rightarrow> [] | Some (a, b) \<Rightarrow> [MoveTo (JNum a) (JNum b)])
         \<and> strokeStyle (ctx c')
             = accept_color (browser st) (js_or (field d ''color'') (JStr ''#000'')) (strokeStyle (ctx c))
         \<and> lineWidth (ctx c')
             = accept_width (browser st) (js_or (field d ''size'') (JNum 3)) (lineWidth (ctx c)))
      \<and> (\<exists>g. last_paint (handleRemoteDrawing d st) = Some (Stroke, g)
         \<and> path g
             = path (ctx c) @ (case point_of (browser st) (field d ''x'') (field d ''y'') of
                  None \<Rightarrow> [] | Some (a, b) \<Rightarrow> [LineTo (JNum a) (JNum b)])
         \<and> strokeStyle g
             = accept_color (browser st) (js_or (field d ''color'') (JStr ''#000'')) (strokeStyle (ctx c))
         \<and> lineWidth g
             = accept_width (browser st) (js_or (field d ''size'') (JNum 3)) (lineWidth (ctx c)))
      \<and> (point_of (browser st) (field d ''x'') (field d ''y'') = Some (a, b) \<longrightarrow>
           (\<exists>g. last_paint (handleRemoteText d st)
                  = Some (FillText (field d ''text'') (JNum a) (JNum b), g)
              \<and> font g = accept_font (browser st) (PxInter (field d ''fontSize'')) (font (ctx c))
              \<and> fillStyle g = accept_color (browser st) (field d ''color'') (fillStyle (ctx c))))
      \<and> (point_of (browser st) (field d ''x'') (field d ''y'') = None \<longrightarrow>
           (\<exists>c'. canvasRef (handleRemoteText d st) = Some c' \<and> bitmap c' = bitmap c)))
   \<and> point_of B (JNum a) (JNum b) = Some (a, b)
   \<and> (truthy v \<longrightarrow> js_or v dflt = v) \<and> (\<not> truthy v \<longrightarrow> js_or v dflt = dflt)
   \<and> (color_ok B v \<longrightarrow> accept_color B v old = v)
   \<and> (\<not> color_ok B v \<longrightarrow> accept_color B v old = old)
   \<and> (0 < n \<longrightarrow> accept_width B (JNum n) old = JNum n)
   \<and> (n \<le> 0 \<longrightarrow> accept_width B (JNum n) old = old)
   \<and> (font_ok B v \<longrightarrow> accept_font B (PxInter v) oldf = PxInter v)
   \<and> (\<not> font_ok B v \<longrightarrow> accept_font B (PxInter v) oldf = oldf)
   \<and> handleRemoteStart d (st\<lparr> color := cl, size' := sz, tool := t \<rparr>)
       = (handleRemoteStart d st)\<lparr> color := cl, size' := sz, tool := t \<rparr>
   \<and> handleRemoteDrawing d (st\<lparr> color := cl, size' := sz, tool := t \<rparr>)
       = (handleRemoteDrawing d st)\<lparr> color := cl, size' := sz, tool := t \<rparr>
   \<and> handleRemoteText d (st\<lparr> color := cl, size' := sz, tool := t \<rparr>)
       = (handleRemoteText d st)\<lparr> color := cl, size' := sz, tool := t \<rparr>"
proof -
  have main: "same_room d st \<and> canvasRef st = Some c \<longrightarrow>
      (\<exists>c'. canvasRef (handleRemoteStart d st) = Some c' \<and> bitmap c' = bitmap c
         \<and> path (ctx c')
             = (case point_of (browser st) (field d ''x'') (field d ''y'') of
                  None \<Rightarrow> [] | Some (a, b) \<Rightarrow> [MoveTo (JNum a) (JNum b)])
         \<and> strokeStyle (ctx c')
             = accept_color (browser st) (js_or (field d ''color'') (JStr ''#000'')) (strokeStyle (ctx c))
         \<and> lineWidth (ctx c')
             = accept_width (browser st) (js_or (field d ''size'') (JNum 3)) (lineWidth (ctx c)))
      \<and> (\<exists>g. last_paint (handleRemoteDrawing d st) = Some (Stroke, g)
         \<and> path g
             = path (ctx c) @ (case point_of (browser st) (field d ''x'') (field d ''y'') of
                  None \<Rightarrow> [] | Some (a, b) \<Rightarrow> [LineTo (JNum a) (JNum b)])
         \<and> strokeStyle g
             = accept_color (browser st) (js_or (field d ''color'') (JStr ''#000'')) (strokeStyle (ctx c))
         \<and> lineWidth g
             = accept_width (browser st) (js_or (field d ''size'') (JNum 3)) (lineWidth (ctx c)))
      \<and> (point_of (browser st) (field d ''x'') (field d ''y'') = Some (a, b) \<longrightarrow>
           (\<exists>g. last_paint (handleRemoteText d st)
                  = Some (FillText (field d ''text'') (JNum a) (JNum b), g)
              \<and> font g = accept_font (browser st) (PxInter (field d ''fontSize'')) (font (ctx c))
              \<and> fillStyle g = accept_color (browser st) (field d ''color'') (fillStyle (ctx c))))
      \<and> (point_of (browser st) (field d ''x'') (field d ''y'') = None \<longrightarrow>
           (\<exists>c'. canvasRef (handleRemoteText d st) = Some c' \<and> bitmap c' = bitmap c))"
    by (cases "point_of (browser st) (field d ''x'') (field d ''y'')")
       (auto simp: handleRemoteStart_def handleRemoteDrawing_def handleRemoteText_def Let_def
          beginPath_def moveTo_def lineTo_def fillText_def add_path_def stroke_def last_paint_def
          paint_call_def set_strokeStyle_def set_lineWidth_def set_font_def set_fillStyle_def)
  have rest: "point_of B (JNum a) (JNum b) = Some (a, b)"
    "truthy v \<longrightarrow> js_or v dflt = v" "\<not> truthy v \<longrightarrow> js_or v dflt = dflt"
    "color_ok B v \<longrightarrow> accept_color B v old = v" "\<not> color_ok B v \<longrightarrow> accept_color B v old = old"
    "0 < n \<longrightarrow> accept_width B (JNum n) old = JNum n" "n \<le> 0 \<longrightarrow> accept_width B (JNum n) old = old"
    "font_ok B v \<longrightarrow> accept_font B (PxInter v) oldf = PxInter v"
    "\<not> font_ok B v \<longrightarrow> accept_font B (PxInter v) oldf = oldf"
    by (simp_all add: point_of_def js_or_def accept_color_def accept_width_def accept_font_def)
  have indep: "handleRemoteStart d (st\<lparr> color := cl, size' := sz, tool := t \<rparr>)
       = (handleRemoteStart d st)\<lparr> color := cl, size' := sz, tool := t \<rparr>"
    "handleRemoteDrawing d (st\<lparr> color := cl, size' := sz, tool := t \<rparr>)
       = (handleRemoteDrawing d st)\<lparr> color := cl, size' := sz, tool := t \<rparr>"
    "handleRemoteText d (st\<lparr> color := cl, size' := sz, tool := t \<rparr>)
       = (handleRemoteText d st)\<lparr> color := cl, size' := sz, tool := t \<rparr>"
    by (simp_all add: handleRemoteStart_def handleRemoteDrawing_def handleRemoteText_def
        same_room_def Let_def)
  from main rest indep show ?thesis by blast
qed

lemma demo_started:
  "handleRemoteStart demo_start demo_client = demo_client\<lparr> canvasRef := Some started_800 \<rparr>"
  by (simp add: handleRemoteStart_def same_room_def demo_start_def demo_client_eval field_def
      js_or_def started_800_def handler_defs blank_800_def)

theorem remote_uses_message_parameters_witness:
  "same_room demo_start demo_client \<and> canvasRef demo_client = Some blank_800
   \<and> color_ok demo_browser (JStr ''#ef4444'') \<and> color_ok demo_browser (JStr ''#3b82f6'')
   \<and> font_ok demo_browser (JNum 24)
   \<and> point_of demo_browser (JNum 50) (JNum 50) = Some (50, 50)
   \<and> point_of demo_browser (JNum 100) (JNum 50) = Some (100, 50)
   \<and> same_room demo_drawing (handleRemoteStart demo_start demo_client)
   \<and> canvasRef (handleRemoteStart demo_start demo_client) = Some started_800
   \<and> (\<exists>g. last_paint (handleRemoteDrawing demo_drawing (handleRemoteStart demo_start demo_client))
             = Some (Stroke, g)
        \<and> path g = [MoveTo (JNum 10) (JNum 10), LineTo (JNum 50) (JNum 50)]
        \<and> strokeStyle g = JStr ''#ef4444'' \<and> lineWidth g = JNum 4)
   \<and> same_room demo_text demo_client
   \<and> (\<exists>g. last_paint (handleRemoteText demo_text demo_client)
             = Some (FillText (JStr ''hello'') (JNum 100) (JNum 50), g)
        \<and> font g = PxInter (JNum 24) \<and> fillStyle g = JStr ''#3b82f6'')"
proof -
  let ?st1 = "handleRemoteStart demo_start demo_client"
  have a: "same_room demo_start demo_client \<and> canvasRef demo_client = Some blank_800"
    by (simp add: same_room_def demo_start_def demo_client_eval)
  have b: "same_room demo_drawing ?st1 \<and> canvasRef ?st1 = Some started_800"
    by (simp add: demo_started) (simp add: same_room_def demo_drawing_def demo_client_eval)
  have c: "same_room demo_text demo_client \<and> canvasRef demo_client = Some blank_800"
    by (simp add: same_room_def demo_text_def demo_client_eval)
  have br: "browser ?st1 = demo_browser" "browser demo_client = demo_browser"
    by (simp_all add: demo_started) (simp_all add: demo_client_eval)
  have pt: "point_of demo_browser (JNum 50) (JNum 50) = Some (50, 50)"
    "point_of demo_browser (JNum 100) (JNum 50) = Some (100, 50)"
    by (simp_all add: point_of_def)
  have f: "field demo_drawing ''x'' = JNum 50" "field demo_drawing ''y'' = JNum 50"
    "js_or (field demo_drawing ''color'') (JStr ''#000'') = JStr ''#ef4444''"
    "js_or (field demo_drawing ''size'') (JNum 3) = JNum 4"
    "field demo_text ''text'' = JStr ''hello''" "field demo_text ''x'' = JNum 100"
    "field demo_text ''y'' = JNum 50" "field demo_text ''fontSize'' = JNum 24"
    "field demo_text ''color'' = JStr ''#3b82f6''"
    by (simp_all add: field_def js_or_def demo_drawing_def demo_text_def)
  have fo: "font_ok demo_browser (JNum 24)"
    by (simp add: demo_browser_def)
  have ok: "accept_color demo_browser (JStr ''#ef4444'') (strokeStyle (ctx started_800)) = JStr ''#ef4444''"
    "accept_width demo_browser (JNum 4) (lineWidth (ctx started_800)) = JNum 4"
    "accept_font demo_browser (PxInter (JNum 24)) (font (ctx blank_800)) = PxInter (JNum 24)"
    "accept_color demo_browser (JStr ''#3b82f6'') (fillStyle (ctx blank_800)) = JStr ''#3b82f6''"
    by (simp_all add: accept_color_ok accept_width_positive accept_font_ok demo_browser_colors fo)
  have p: "path (ctx started_800) = [MoveTo (JNum 10) (JNum 10)]"
    by (simp add: started_800_def)
  show ?thesis
    using remote_uses_message_parameters [of demo_drawing ?st1 started_800]
      remote_uses_message_parameters [of demo_text demo_client blank_800 100 50]
      a b c
    by (simp add: f br ok p pt fo demo_browser_colors)
qed


section \<open>Properties of clearing\<close>

lemma render_append: "render P (ops @ ops2) = foldl (apply_paint P) (render P ops) ops2"
  by (simp add: render_def)

lemma apply_clear_twice:
  "apply_paint P (apply_paint P b (ClearRect x y w h, g)) (ClearRect x y w h, g)
     = apply_paint P b (ClearRect x y w h, g)"
  by (auto simp: apply_paint_def)

lemma render_clearRect_twice:
  "render P (bitmap (clearRect x y w h (clearRect x y w h c))) = render P (bitmap (clearRect x y w h c))"
  by (simp add: clearRect_def paint_call_def render_append apply_clear_twice)

lemma wipe_twice: "render P (bitmap (wipe (wipe c))) = render P (bitmap (wipe c))"
proof -
  have "width (wipe c) = width c" and "height (wipe c) = height c"
    by (simp_all add: wipe_def clearRect_def paint_call_def)
  then have "wipe (wipe c) = clearRect 0 0 (real_of_int (width c)) (real_of_int (height c)) (wipe c)"
    by (simp add: wipe_def [of "wipe c"])
  then show ?thesis
    by (simp add: render_clearRect_twice wipe_def [of c])
qed

lemma clear_surface_canvasRef:
  "canvasRef (clear_surface st) = (if ctxRef st then map_option wipe (canvasRef st) else canvasRef st)"
  by (simp add: clear_surface_def wipe_def [abs_def])

lemma clear_surface_ctxRef: "ctxRef (clear_surface st) = ctxRef st"
  by (simp add: clear_surface_def)

lemma onClear_canvasRef:
  "canvasRef (onClear room st)
     = (if room = JStr (roomId st) \<and> ctxRef st then map_option wipe (canvasRef st) else canvasRef st)"
  by (simp add: onClear_def saveCanvas_canvasRef clear_surface_canvasRef)

lemma saveCanvas_roomId: "roomId (saveCanvas st) = roomId st"
  by (cases "canvasRef st") (simp_all add: saveCanvas_mounted saveCanvas_unmounted)

lemma onClear_frame: "roomId (onClear room st) = roomId st \<and> ctxRef (onClear room st) = ctxRef st"
  by (simp add: onClear_def saveCanvas_roomId saveCanvas_ctxRef clear_surface_def)

lemma clearBoard_canvasRef:
  "canvasRef (clearBoard st) = (if ctxRef st then map_option wipe (canvasRef st) else canvasRef st)"
  by (simp add: clearBoard_def Let_def socket_emit_def saveCanvas_canvasRef saveCanvas_ctxRef
      clear_surface_canvasRef)

lemma clearBoard_ctxRef: "ctxRef (clearBoard st) = ctxRef st"
  by (simp add: clearBoard_def Let_def socket_emit_def saveCanvas_ctxRef clear_surface_ctxRef)

text \<open>
  Claim C8.  Whatever the other painting calls put on a surface, a surface shows the same
  pixels after two \<open>clear\<close> messages in a row as after one, and the same after
  \<open>clearBoard\<close> twice as after once.
\<close>

theorem clear_idempotent:
  "surface P (onClear room (onClear room st)) = surface P (onClear room st)
   \<and> surface P (clearBoard (clearBoard st)) = surface P (clearBoard st)"
proof
  show "surface P (onClear room (onClear room st)) = surface P (onClear room st)"
    by (cases "canvasRef st")
       (simp_all add: surface_def onClear_canvasRef onClear_frame wipe_twice)
  show "surface P (clearBoard (clearBoard st)) = surface P (clearBoard st)"
    by (cases "canvasRef st")
       (simp_all add: surface_def clearBoard_canvasRef clearBoard_ctxRef wipe_twice)
qed



section \<open>Properties of local drawing\<close>

subsection \<open>The eraser\<close>

lemma eraser_down_eval:
  "handlePointerDown (pointer_at 10 10) (setTool Eraser demo_client) = Inr eraser_down"
  by (simp add: handlePointerDown_def pointer_at_def setTool_def demo_client_eval eraser_down_def
      Let_def is_shape_def beginPath_def moveTo_def add_path_def set_strokeStyle_def
      set_lineWidth_def socket_emit_def blank_800_def demo_browser_colors accept_color_ok
      accept_width_positive point_of_def)

lemma eraser_moved_eval:
  "handlePointerMove (pointer_at 50 50) eraser_down = Inr eraser_moved"
  by (simp add: handlePointerMove_def pointer_at_def demo_client_eval eraser_down_def
      eraser_moved_def eraser_stroke_def
      Let_def is_shape_def lineTo_def add_path_def set_strokeStyle_def
      set_lineWidth_def stroke_def paint_call_def socket_emit_def blank_800_def
      demo_browser_colors accept_color_ok accept_width_positive point_of_def)

text \<open>
  Claim C5 does not hold of the code.  With the eraser selected, pointer-down sets and emits
  the colour #ffffff and three times the size, and pointer-move strokes with them, but the
  \<open>drawing\<close> message that pointer-move emits carries the selected colour #1e293b and
  the selected size 4.
\<close>

theorem eraser_move_emits_selected_settings:
  "handlePointerDown (pointer_at 10 10) (setTool Eraser demo_client) = Inr eraser_down
   \<and> handlePointerMove (pointer_at 50 50) eraser_down = Inr eraser_moved
   \<and> last_paint eraser_moved = Some (Stroke, eraser_stroke)
   \<and> strokeStyle eraser_stroke = JStr ''#ffffff'' \<and> lineWidth eraser_stroke = JNum 12
   \<and> last (emitted eraser_moved) =
       (''drawing'', JObj [(''roomId'', JStr ''demo1''), (''x'', JNum 50), (''y'', JNum 50),
          (''color'', JStr ''#1e293b''), (''size'', JNum 4), (''tool'', JStr ''eraser'')])"
  by (simp add: eraser_down_eval eraser_moved_eval)
     (simp add: eraser_moved_def last_paint_def eraser_stroke_def blank_800_def)


subsection \<open>Committing a text\<close>

text \<open>
  Claim C9.  A key press in the text input changes the state only if the key is Enter, the
  trimmed text is not empty and both coordinates of the placement are nonzero; with a
  placement at x = 0 or y = 0 it changes nothing: no paint, no snapshot, no emission.
\<close>

theorem text_commit_guard:
  "(text_onKeyDown key st \<noteq> st \<longrightarrow>
      key = ''Enter'' \<and> trim (textInput st) \<noteq> [] \<and> fst (textPosition st) \<noteq> 0
      \<and> snd (textPosition st) \<noteq> 0)
   \<and> (fst (textPosition st) = 0 \<or> snd (textPosition st) = 0 \<longrightarrow> text_onKeyDown key st = st)"
  by (auto simp: text_onKeyDown_def)

lemma placed_text_commits:
  "emitted (text_onKeyDown ''Enter'' placed_text)
     = [(''join-room'', JStr ''demo1''),
        (''draw-text'', JObj [(''roomId'', JStr ''demo1''), (''text'', JStr ''hi''), (''x'', JNum 100),
           (''y'', JNum 50), (''color'', JStr ''#1e293b''), (''fontSize'', JNum 16)])]"
  by (simp add: text_onKeyDown_def placed_text_def demo_client_eval trim_def js_space_def Let_def
      dpr_def saveCanvas_mounted socket_emit_def)

theorem text_commit_guard_witness:
  "text_onKeyDown ''Enter'' placed_text \<noteq> placed_text
   \<and> trim (textInput placed_text) \<noteq> [] \<and> fst (textPosition placed_text) \<noteq> 0
   \<and> snd (textPosition placed_text) \<noteq> 0
   \<and> fst (textPosition placed_at_edge) = 0
   \<and> text_onKeyDown ''Enter'' placed_at_edge = placed_at_edge"
proof -
  have "emitted (text_onKeyDown ''Enter'' placed_text) \<noteq> emitted placed_text"
    by (simp add: placed_text_commits) (simp add: placed_text_def demo_client_eval)
  then have a: "text_onKeyDown ''Enter'' placed_text \<noteq> placed_text"
    by auto
  have b: "fst (textPosition placed_at_edge) = 0"
    by (simp add: placed_at_edge_def)
  show ?thesis
    using text_commit_guard [of "''Enter''" placed_text]
      text_commit_guard [of "''Enter''" placed_at_edge] a b
    by simp
qed

subsection \<open>Resizing\<close>

lemma drawn_client_eval: "run_events one_stroke demo_client = Inr drawn_client"
  by (simp add: one_stroke_def demo_client_eval drawn_client_def drawn_800_def first_stroke_def
      handler_defs blank_800_def snap_def)

lemma pending_restore_eval:
  "final_history_length (run_events undo_resize_load demo_client) = Some 1
   \<and> final_paint (run_events undo_resize_load demo_client)
       = Some (DrawImage (snap drawn_800) 0 0, ctx blank_800)"
  by (simp add: undo_resize_load_def one_stroke_def demo_client_eval drawn_800_def first_stroke_def
      handler_defs blank_800_def snap_def final_paint_def final_history_length_def last_paint_def)

text \<open>
  Claim C10, as stated, fails in two ways.  While the canvas is not mounted, as on the
  component as first rendered, \<open>resizeCanvas\<close> returns at its guard and the history
  stays empty.  And what was drawn before can come back: after two strokes, an undo asks for
  the snapshot that holds the first stroke; a resize before that image has loaded leaves a
  history of one snapshot, and the load then paints the first stroke on the resized surface.
\<close>

theorem resize_unmounted_or_pending_restore:
  "canvasRef fresh_client = None \<and> length (historyRef (resizeCanvas fresh_client)) = 0
   \<and> run_events one_stroke demo_client = Inr drawn_client
   \<and> last_paint drawn_client = Some (Stroke, first_stroke)
   \<and> final_history_length (run_events undo_resize_load demo_client) = Some 1
   \<and> final_paint (run_events undo_resize_load demo_client)
       = Some (DrawImage (snap drawn_800) 0 0, ctx blank_800)"
  using drawn_client_eval pending_restore_eval
  by (simp add: fresh_client_def init_client_def resizeCanvas_def)
     (simp add: drawn_client_def last_paint_def drawn_800_def)

lemma render_single_clear: "render P [(ClearRect x y w h, g)] = (\<lambda>p. None)"
  by (auto simp: render_def apply_paint_def)

lemma funpow_fixed: "f x = x \<Longrightarrow> (f ^^ k) x = x"
  by (induction k) simp_all

text \<open>
  Claim C10, amended.  While the canvas is not mounted \<open>resizeCanvas\<close> does nothing.
  With the canvas mounted it leaves a surface on which only the clearing of its whole
  extent is painted, which shows no pixel, and a history of exactly one snapshot, that of
  this surface; no number of undos after it changes anything.  It leaves the images still
  loading as they are.
\<close>

theorem resize_resets:
  "(canvasRef st = None \<longrightarrow> resizeCanvas st = st)
   \<and> (canvasRef st \<noteq> None \<longrightarrow>
        (\<exists>c'. canvasRef (resizeCanvas st) = Some c'
           \<and> bitmap c' = [(ClearRect 0 0 (real_of_int (width c')) (real_of_int (height c')), ctx c')]
           \<and> render P (bitmap c') = (\<lambda>p. None)
           \<and> historyRef (resizeCanvas st) = [snap c'])
        \<and> (handleUndo ^^ k) (resizeCanvas st) = resizeCanvas st
        \<and> loading (resizeCanvas st) = loading st)"
proof (intro conjI impI)
  assume "canvasRef st = None"
  then show "resizeCanvas st = st" by (simp add: resizeCanvas_def)
next
  assume "canvasRef st \<noteq> None"
  then obtain c where c: "canvasRef st = Some c" by auto
  define c6 where "c6 = set_lineJoin ''round'' (set_lineCap ''round'' (ctx_scale (dpr st)
      ((set_height (real_of_int (snd (parentSize st)) * dpr st)
         (set_width (real_of_int (fst (parentSize st)) * dpr st) c))
       \<lparr> cssWidth := fst (parentSize st), cssHeight := snd (parentSize st) \<rparr>)))"
  define c7 where "c7 = clearRect 0 0 (real_of_int (width c6)) (real_of_int (height c6)) c6"
  have blank: "bitmap c6 = []"
    by (simp add: c6_def set_lineJoin_def set_lineCap_def ctx_scale_def set_height_def)
  have r: "resizeCanvas st = saveCanvas (st\<lparr> canvasRef := Some c7, ctxRef := True, historyRef := [] \<rparr>)"
    using c by (simp add: resizeCanvas_def Let_def c7_def c6_def)
  have 1: "canvasRef (resizeCanvas st) = Some c7"
    by (simp add: r saveCanvas_canvasRef)
  have 2: "bitmap c7 = [(ClearRect 0 0 (real_of_int (width c7)) (real_of_int (height c7)), ctx c7)]"
    using blank by (simp add: c7_def clearRect_def paint_call_def)
  have 3: "render P (bitmap c7) = (\<lambda>p. None)"
    by (simp only: 2 render_single_clear)
  have 4: "historyRef (resizeCanvas st) = [snap c7]"
    by (simp add: r saveCanvas_mounted)
  from 1 2 3 4 show "\<exists>c'. canvasRef (resizeCanvas st) = Some c'
           \<and> bitmap c' = [(ClearRect 0 0 (real_of_int (width c')) (real_of_int (height c')), ctx c')]
           \<and> render P (bitmap c') = (\<lambda>p. None)
           \<and> historyRef (resizeCanvas st) = [snap c']"
    by blast
  from 4 have "handleUndo (resizeCanvas st) = resizeCanvas st"
    by (simp add: handleUndo_single)
  then show "(handleUndo ^^ k) (resizeCanvas st) = resizeCanvas st"
    by (rule funpow_fixed)
  show "loading (resizeCanvas st) = loading st"
    by (simp add: r saveCanvas_loading)
qed

theorem resize_resets_witness:
  "canvasRef fresh_client = None \<and> resizeCanvas fresh_client = fresh_client
   \<and> canvasRef drawn_client \<noteq> None \<and> length (historyRef drawn_client) = 2
   \<and> last_paint drawn_client = Some (Stroke, first_stroke)
   \<and> (\<exists>c'. canvasRef (resizeCanvas drawn_client) = Some c'
         \<and> bitmap c' = [(ClearRect 0 0 (real_of_int (width c')) (real_of_int (height c')), ctx c')]
         \<and> historyRef (resizeCanvas drawn_client) = [snap c'])
   \<and> (handleUndo ^^ 3) (resizeCanvas drawn_client) = resizeCanvas drawn_client"
proof -
  have a: "canvasRef fresh_client = None"
    by (simp add: fresh_client_def init_client_def)
  have b: "canvasRef drawn_client \<noteq> None" "length (historyRef drawn_client) = 2"
    "last_paint drawn_client = Some (Stroke, first_stroke)"
    by (simp_all add: drawn_client_def last_paint_def drawn_800_def)
  show ?thesis
    using resize_resets [of fresh_client] resize_resets [of drawn_client _ 3] a b by blast
qed

end
